theory Spec2Isabelle
  imports Complex_Main "HOL-Library.AList"
begin

section \<open>Strings of the platform\<close>

text \<open>
  A JavaScript string is modelled as an Isabelle \<open>string\<close>: a list of characters whose
  code points lie below 256 (the Latin-1 range). Code points beyond that range are
  outside the model.
\<close>

definition code :: "char \<Rightarrow> nat" where
  "code c = of_char c"

text \<open>
  \<open>String.prototype.toLowerCase\<close> on that range: \<open>A\<close>..\<open>Z\<close> (65..90) and the
  accented capitals 192..222, except the multiplication sign 215, move up by 32.
\<close>

definition lower_char :: "char \<Rightarrow> char" where
  "lower_char c =
     (let n = code c
      in if (65 \<le> n \<and> n \<le> 90) \<or> (192 \<le> n \<and> n \<le> 222 \<and> n \<noteq> 215)
         then char_of (n + 32) else c)"

definition toLowerCase :: "string \<Rightarrow> string" where
  "toLowerCase s = map lower_char s"

text \<open>
  \<open>new Blob([s]).size\<close>: the length of the UTF-8 encoding of \<open>s\<close>. A code point below
  128 takes one byte, the other code points of the range take two.
\<close>

definition blob_size :: "string \<Rightarrow> nat" where
  "blob_size s = sum_list (map (\<lambda>c. if code c < 128 then 1 else 2) s)"

section \<open>JSON values, \<open>JSON.stringify\<close> and \<open>JSON.parse\<close>\<close>

text \<open>
  The values that travel through the storage module. A number is kept as its literal
  text: the arithmetic of IEEE doubles plays no part in the storage operations, which
  only move numbers around. The platform prints a number in its shortest form (\<open>41.90\<close>
  as \<open>41.9\<close>) and lists the members of an object whose names are array indices before
  the others; the model prints the literal it was given and keeps the members in the
  order of the text. Both differences touch only the bytes written back for entries
  that were stored in another form.
\<close>

datatype json =
    JNull
  | JBool bool
  | JNum string
  | JStr string
  | JArr "json list"
  | JObj "(string \<times> json) list"

definition hex_digit :: "nat \<Rightarrow> char" where
  "hex_digit n = ''0123456789abcdef'' ! (n mod 16)"

text \<open>The quoting of \<open>JSON.stringify\<close> (QuoteJSONString).\<close>

definition quote_char :: "char \<Rightarrow> string" where
  "quote_char c =
     (let n = code c
      in if n = 34 then [CHR 0x5C, CHR 0x22]
         else if n = 92 then [CHR 0x5C, CHR 0x5C]
         else if n = 8 then [CHR 0x5C, CHR ''b'']
         else if n = 12 then [CHR 0x5C, CHR ''f'']
         else if n = 10 then [CHR 0x5C, CHR ''n'']
         else if n = 13 then [CHR 0x5C, CHR ''r'']
         else if n = 9 then [CHR 0x5C, CHR ''t'']
         else if n < 32 then [CHR 0x5C, CHR ''u'', CHR ''0'', CHR ''0'',
                              hex_digit (n div 16), hex_digit n]
         else [c])"

definition quote_string :: "string \<Rightarrow> string" where
  "quote_string s = [CHR 0x22] @ concat (map quote_char s) @ [CHR 0x22]"

fun join_comma :: "string list \<Rightarrow> string" where
  "join_comma [] = []"
| "join_comma [x] = x"
| "join_comma (x # y # ys) = x @ '','' @ join_comma (y # ys)"

fun JSON_stringify :: "json \<Rightarrow> string" where
  "JSON_stringify JNull = ''null''"
| "JSON_stringify (JBool b) = (if b then ''true'' else ''false'')"
| "JSON_stringify (JNum n) = n"
| "JSON_stringify (JStr s) = quote_string s"
| "JSON_stringify (JArr vs) = ''['' @ join_comma (map JSON_stringify vs) @ '']''"
| "JSON_stringify (JObj kvs) =
     ''{'' @ join_comma (map (\<lambda>(k, v). quote_string k @ '':'' @ JSON_stringify v) kvs) @ ''}''"

subsection \<open>Lexical analysis\<close>

datatype token =
    TLBrace | TRBrace | TLBrack | TRBrack | TColon | TComma
  | TStr string | TNum string | TTrue | TFalse | TNull

text \<open>
  The scanner reads one character at a time. Inside a string it keeps the characters
  read so far (reversed); inside a \<open>\u\<close> escape it also keeps the hexadecimal digits read
  so far; a number or a literal name is collected and checked when it ends. A \<open>\u\<close>
  escape of a code point from 256 up has no character in the model: the scanner stops
  there, where the platform reads it.
\<close>

datatype lex_state =
    LStart
  | LInStr string
  | LEsc string
  | LUni string "nat list"
  | LNum string
  | LWord string

definition is_digit :: "char \<Rightarrow> bool" where
  "is_digit c = (48 \<le> code c \<and> code c \<le> 57)"

definition is_ws :: "char \<Rightarrow> bool" where
  "is_ws c = (code c = 32 \<or> code c = 9 \<or> code c = 10 \<or> code c = 13)"

definition is_num_char :: "char \<Rightarrow> bool" where
  "is_num_char c =
     (is_digit c \<or> c = CHR ''-'' \<or> c = CHR ''+'' \<or> c = CHR ''.'' \<or> c = CHR ''e'' \<or> c = CHR ''E'')"

definition is_word_char :: "char \<Rightarrow> bool" where
  "is_word_char c = (97 \<le> code c \<and> code c \<le> 122)"

definition hex_value :: "char \<Rightarrow> nat option" where
  "hex_value c =
     (let n = code c
      in if 48 \<le> n \<and> n \<le> 57 then Some (n - 48)
         else if 97 \<le> n \<and> n \<le> 102 then Some (n - 87)
         else if 65 \<le> n \<and> n \<le> 70 then Some (n - 55)
         else None)"

text \<open>
  The number grammar: an optional minus sign, an integer part without a leading zero
  (or the single digit zero), an optional fraction, an optional exponent.
\<close>

definition valid_int_part :: "string \<Rightarrow> bool" where
  "valid_int_part ds = (ds = ''0'' \<or> (ds \<noteq> [] \<and> hd ds \<noteq> CHR ''0''))"

definition valid_exponent :: "string \<Rightarrow> bool" where
  "valid_exponent r =
     (case r of
        [] \<Rightarrow> True
      | e # r1 \<Rightarrow>
          (e = CHR ''e'' \<or> e = CHR ''E'') \<and>
          (let r2 = (case r1 of [] \<Rightarrow> []
                     | s # r3 \<Rightarrow> if s = CHR ''+'' \<or> s = CHR ''-'' then r3 else r1)
           in r2 \<noteq> [] \<and> list_all is_digit r2))"

definition valid_number :: "string \<Rightarrow> bool" where
  "valid_number s =
     (let s1 = (case s of [] \<Rightarrow> [] | c # r \<Rightarrow> if c = CHR ''-'' then r else s);
          ip = takeWhile is_digit s1;
          r1 = dropWhile is_digit s1
      in valid_int_part ip \<and>
         (case r1 of
            [] \<Rightarrow> True
          | d # r2 \<Rightarrow>
              if d = CHR ''.''
              then takeWhile is_digit r2 \<noteq> [] \<and> valid_exponent (dropWhile is_digit r2)
              else valid_exponent r1))"

definition finish_num :: "string \<Rightarrow> token option" where
  "finish_num acc = (let s = rev acc in if valid_number s then Some (TNum s) else None)"

definition finish_word :: "string \<Rightarrow> token option" where
  "finish_word acc =
     (let s = rev acc
      in if s = ''true'' then Some TTrue
         else if s = ''false'' then Some TFalse
         else if s = ''null'' then Some TNull
         else None)"

text \<open>What a character does when no token is open.\<close>

definition start_char :: "char \<Rightarrow> token list \<Rightarrow> (lex_state \<times> token list) option" where
  "start_char c toks =
     (if is_ws c then Some (LStart, toks)
      else if c = CHR ''{'' then Some (LStart, TLBrace # toks)
      else if c = CHR ''}'' then Some (LStart, TRBrace # toks)
      else if c = CHR ''['' then Some (LStart, TLBrack # toks)
      else if c = CHR '']'' then Some (LStart, TRBrack # toks)
      else if c = CHR '':'' then Some (LStart, TColon # toks)
      else if c = CHR '','' then Some (LStart, TComma # toks)
      else if code c = 34 then Some (LInStr [], toks)
      else if is_digit c \<or> c = CHR ''-'' then Some (LNum [c], toks)
      else if is_word_char c then Some (LWord [c], toks)
      else None)"

definition unescape :: "char \<Rightarrow> char option" where
  "unescape c =
     (if code c = 34 \<or> code c = 92 \<or> c = CHR ''/'' then Some c
      else if c = CHR ''b'' then Some (char_of (8::nat))
      else if c = CHR ''f'' then Some (char_of (12::nat))
      else if c = CHR ''n'' then Some (char_of (10::nat))
      else if c = CHR ''r'' then Some (char_of (13::nat))
      else if c = CHR ''t'' then Some (char_of (9::nat))
      else None)"

text \<open>The tokens are collected in reverse order; \<open>None\<close> is a syntax error.\<close>

fun lex :: "lex_state \<Rightarrow> token list \<Rightarrow> string \<Rightarrow> token list option" where
  "lex LStart toks [] = Some toks"
| "lex (LNum acc) toks [] =
     (case finish_num acc of None \<Rightarrow> None | Some t \<Rightarrow> Some (t # toks))"
| "lex (LWord acc) toks [] =
     (case finish_word acc of None \<Rightarrow> None | Some t \<Rightarrow> Some (t # toks))"
| "lex (LInStr acc) toks [] = None"
| "lex (LEsc acc) toks [] = None"
| "lex (LUni acc ds) toks [] = None"
| "lex LStart toks (c # cs) =
     (case start_char c toks of None \<Rightarrow> None | Some (st, toks') \<Rightarrow> lex st toks' cs)"
| "lex (LInStr acc) toks (c # cs) =
     (if code c = 34 then lex LStart (TStr (rev acc) # toks) cs
      else if code c = 92 then lex (LEsc acc) toks cs
      else if code c < 32 then None
      else lex (LInStr (c # acc)) toks cs)"
| "lex (LEsc acc) toks (c # cs) =
     (if c = CHR ''u'' then lex (LUni acc []) toks cs
      else (case unescape c of None \<Rightarrow> None | Some d \<Rightarrow> lex (LInStr (d # acc)) toks cs))"
| "lex (LUni acc ds) toks (c # cs) =
     (case hex_value c of
        None \<Rightarrow> None
      | Some d \<Rightarrow>
          (if length ds < 3 then lex (LUni acc (ds @ [d])) toks cs
           else (let n = foldl (\<lambda>a x. 16 * a + x) 0 (ds @ [d])
                 in if n < 256 then lex (LInStr (char_of n # acc)) toks cs else None)))"
| "lex (LNum acc) toks (c # cs) =
     (if is_num_char c then lex (LNum (c # acc)) toks cs
      else (case finish_num acc of
              None \<Rightarrow> None
            | Some t \<Rightarrow>
                (case start_char c (t # toks) of
                   None \<Rightarrow> None
                 | Some (st, toks') \<Rightarrow> lex st toks' cs)))"
| "lex (LWord acc) toks (c # cs) =
     (if is_word_char c then lex (LWord (c # acc)) toks cs
      else (case finish_word acc of
              None \<Rightarrow> None
            | Some t \<Rightarrow>
                (case start_char c (t # toks) of
                   None \<Rightarrow> None
                 | Some (st, toks') \<Rightarrow> lex st toks' cs)))"

definition tokenize :: "string \<Rightarrow> token list option" where
  "tokenize s = map_option rev (lex LStart [] s)"

subsection \<open>Syntax analysis\<close>

text \<open>
  The parser keeps a stack of the arrays and objects that are open. An array frame holds
  its elements so far (reversed); an object frame holds its members so far and the key
  that waits for its value. A key that occurs twice keeps its first position and takes
  the later value, as a property assignment does.
\<close>

datatype frame = FArr "json list" | FObj "(string \<times> json) list" "string option"

datatype pstate = PValue | PArrStart | PObjStart | PKey | PColon | PAfter | PDone

type_synonym parser = "pstate \<times> frame list \<times> json option"

fun push_value :: "json \<Rightarrow> frame list \<Rightarrow> parser option" where
  "push_value v [] = Some (PDone, [], Some v)"
| "push_value v (FArr es # st) = Some (PAfter, FArr (v # es) # st, None)"
| "push_value v (FObj kvs (Some k) # st) =
     Some (PAfter, FObj (AList.update k v kvs) None # st, None)"
| "push_value v (FObj kvs None # st) = None"

fun open_value :: "token \<Rightarrow> frame list \<Rightarrow> parser option" where
  "open_value (TStr s) st = push_value (JStr s) st"
| "open_value (TNum n) st = push_value (JNum n) st"
| "open_value TTrue st = push_value (JBool True) st"
| "open_value TFalse st = push_value (JBool False) st"
| "open_value TNull st = push_value JNull st"
| "open_value TLBrack st = Some (PArrStart, FArr [] # st, None)"
| "open_value TLBrace st = Some (PObjStart, FObj [] None # st, None)"
| "open_value _ st = None"

fun pstep :: "parser \<Rightarrow> token \<Rightarrow> parser option" where
  "pstep (PValue, st, r) t = open_value t st"
| "pstep (PArrStart, FArr es # st, r) TRBrack = push_value (JArr (rev es)) st"
| "pstep (PArrStart, st, r) t = open_value t st"
| "pstep (PObjStart, FObj kvs None # st, r) TRBrace = push_value (JObj kvs) st"
| "pstep (PObjStart, FObj kvs None # st, r) (TStr k) = Some (PColon, FObj kvs (Some k) # st, None)"
| "pstep (PObjStart, st, r) t = None"
| "pstep (PKey, FObj kvs None # st, r) (TStr k) = Some (PColon, FObj kvs (Some k) # st, None)"
| "pstep (PKey, st, r) t = None"
| "pstep (PColon, st, r) TColon = Some (PValue, st, None)"
| "pstep (PColon, st, r) t = None"
| "pstep (PAfter, FArr es # st, r) TComma = Some (PValue, FArr es # st, None)"
| "pstep (PAfter, FArr es # st, r) TRBrack = push_value (JArr (rev es)) st"
| "pstep (PAfter, FObj kvs None # st, r) TComma = Some (PKey, FObj kvs None # st, None)"
| "pstep (PAfter, FObj kvs None # st, r) TRBrace = push_value (JObj kvs) st"
| "pstep (PAfter, st, r) t = None"
| "pstep (PDone, st, r) t = None"

fun prun :: "parser \<Rightarrow> token list \<Rightarrow> parser option" where
  "prun p [] = Some p"
| "prun p (t # ts) = (case pstep p t of None \<Rightarrow> None | Some p' \<Rightarrow> prun p' ts)"

text \<open>\<open>JSON.parse\<close>: \<open>None\<close> stands for the \<open>SyntaxError\<close> it throws.\<close>

definition JSON_parse :: "string \<Rightarrow> json option" where
  "JSON_parse s =
     (case tokenize s of
        None \<Rightarrow> None
      | Some ts \<Rightarrow>
          (case prun (PValue, [], None) ts of
             Some (PDone, [], Some v) \<Rightarrow> Some v
           | _ \<Rightarrow> None))"

section \<open>The storage module\<close>

subsection \<open>The browser around it\<close>

datatype js_error = SecurityError | QuotaExceededError | SyntaxError | TypeError

datatype log_entry = ConsoleError string "js_error option" | ConsoleWarn string

text \<open>
  The storage substrate, the diagnostic sink and the clock. \<open>items\<close> is the content of
  \<open>localStorage\<close>, one pair for each key. When \<open>available\<close> is false every access to
  \<open>localStorage\<close> throws; a write that would take the content beyond \<open>quota\<close> throws as
  well. \<open>now\<close> is the text \<open>new Date().toISOString()\<close> gives.
\<close>

record world =
  items :: "(string \<times> string) list"
  available :: bool
  quota :: nat
  console :: "log_entry list"
  now :: string

definition usage :: "(string \<times> string) list \<Rightarrow> nat" where
  "usage kvs = sum_list (map (\<lambda>(k, v). length k + length v) kvs)"

definition localStorage_getItem :: "world \<Rightarrow> string \<Rightarrow> js_error + string option" where
  "localStorage_getItem w key =
     (if available w then Inr (map_of (items w) key) else Inl SecurityError)"

definition localStorage_setItem :: "world \<Rightarrow> string \<Rightarrow> string \<Rightarrow> js_error + world" where
  "localStorage_setItem w key val =
     (if \<not> available w then Inl SecurityError
      else (let items' = AList.update key val (items w)
            in if usage items' \<le> quota w then Inr (w\<lparr>items := items'\<rparr>)
               else Inl QuotaExceededError))"

definition localStorage_removeItem :: "world \<Rightarrow> string \<Rightarrow> js_error + world" where
  "localStorage_removeItem w key =
     (if available w then Inr (w\<lparr>items := AList.delete key (items w)\<rparr>)
      else Inl SecurityError)"

definition console_error :: "world \<Rightarrow> string \<Rightarrow> js_error option \<Rightarrow> world" where
  "console_error w msg e = w\<lparr>console := console w @ [ConsoleError msg e]\<rparr>"

subsection \<open>\<open>KEYS\<close>\<close>

definition SEARCH_HISTORY :: string where
  "SEARCH_HISTORY = ''weather_search_history''"

definition FAVORITES :: string where
  "FAVORITES = ''weather_favorites''"

definition THEME :: string where
  "THEME = ''weather_theme''"

definition UNIT :: string where
  "UNIT = ''weather_unit''"

definition KEYS :: "(string \<times> string) list" where
  "KEYS = [(''SEARCH_HISTORY'', SEARCH_HISTORY), (''FAVORITES'', FAVORITES),
           (''THEME'', THEME), (''UNIT'', UNIT)]"

subsection \<open>\<open>getItem\<close> and \<open>setItem\<close>\<close>

text \<open>
  The body of the \<open>try\<close> block of \<open>getItem\<close>. An absent key gives \<open>null\<close> and an empty
  string is falsy too: both take the default without parsing.
\<close>

definition getItem_try :: "world \<Rightarrow> string \<Rightarrow> json \<Rightarrow> js_error + json" where
  "getItem_try w key defaultValue =
     (case localStorage_getItem w key of
        Inl e \<Rightarrow> Inl e
      | Inr item \<Rightarrow>
          (case item of
             None \<Rightarrow> Inr defaultValue
           | Some s \<Rightarrow>
               if s = [] then Inr defaultValue
               else (case JSON_parse s of None \<Rightarrow> Inl SyntaxError | Some v \<Rightarrow> Inr v)))"

definition getItem :: "world \<Rightarrow> string \<Rightarrow> json \<Rightarrow> js_error + json \<times> world" where
  "getItem w key defaultValue =
     (case getItem_try w key defaultValue of
        Inr v \<Rightarrow> Inr (v, w)
      | Inl e \<Rightarrow>
          Inr (defaultValue,
               console_error w (''Error reading '' @ key @ '' from localStorage:'') (Some e)))"

definition setItem :: "world \<Rightarrow> string \<Rightarrow> json \<Rightarrow> js_error + bool \<times> world" where
  "setItem w key val =
     (case localStorage_setItem w key (JSON_stringify val) of
        Inr w' \<Rightarrow> Inr (True, w')
      | Inl e \<Rightarrow>
          Inr (False,
               console_error w (''Error writing '' @ key @ '' to localStorage:'') (Some e)))"

subsection \<open>Search history\<close>

definition getSearchHistory :: "world \<Rightarrow> js_error + json \<times> world" where
  "getSearchHistory w = getItem w SEARCH_HISTORY (JArr [])"

text \<open>
  \<open>history.filter(item => item.toLowerCase() !== city.toLowerCase())\<close>: the callback
  runs on every element, and an element that is not a string has no \<open>toLowerCase\<close> to
  call. A value that is not an array has no \<open>filter\<close>.
\<close>

fun filter_history :: "json list \<Rightarrow> string \<Rightarrow> js_error + json list" where
  "filter_history [] city = Inr []"
| "filter_history (item # rest) city =
     (case item of
        JStr s \<Rightarrow>
          (case filter_history rest city of
             Inl e \<Rightarrow> Inl e
           | Inr kept \<Rightarrow>
               Inr (if toLowerCase s \<noteq> toLowerCase city then item # kept else kept))
      | _ \<Rightarrow> Inl TypeError)"

definition addToSearchHistory :: "world \<Rightarrow> string \<Rightarrow> js_error + json list \<times> world" where
  "addToSearchHistory w city =
     (case getSearchHistory w of
        Inl e \<Rightarrow> Inl e
      | Inr (history, w1) \<Rightarrow>
          (case history of
             JArr entries \<Rightarrow>
               (case filter_history entries city of
                  Inl e \<Rightarrow> Inl e
                | Inr kept \<Rightarrow>
                    (let updatedHistory = take 10 (JStr city # kept)
                     in case setItem w1 SEARCH_HISTORY (JArr updatedHistory) of
                          Inl e \<Rightarrow> Inl e
                        | Inr (ok, w2) \<Rightarrow> Inr (updatedHistory, w2)))
           | _ \<Rightarrow> Inl TypeError))"

definition clearSearchHistory :: "world \<Rightarrow> js_error + unit \<times> world" where
  "clearSearchHistory w =
     (case setItem w SEARCH_HISTORY (JArr []) of
        Inl e \<Rightarrow> Inl e
      | Inr (ok, w1) \<Rightarrow> Inr ((), w1))"

subsection \<open>Favorites\<close>

record location =
  name :: string
  country :: string
  lat :: string
  lon :: string

datatype add_result = Success "json list" | Failure string

definition getFavorites :: "world \<Rightarrow> js_error + json \<times> world" where
  "getFavorites w = getItem w FAVORITES (JArr [])"

text \<open>
  \<open>fav.name.toLowerCase()\<close>: only an object with a string under \<open>name\<close> gets through;
  \<open>null\<close>, a missing \<open>name\<close> and a \<open>name\<close> of another type all end in a \<open>TypeError\<close>.
\<close>

definition fav_name_lower :: "json \<Rightarrow> js_error + string" where
  "fav_name_lower fav =
     (case fav of
        JObj kvs \<Rightarrow>
          (case map_of kvs ''name'' of
             Some (JStr s) \<Rightarrow> Inr (toLowerCase s)
           | _ \<Rightarrow> Inl TypeError)
      | _ \<Rightarrow> Inl TypeError)"

text \<open>\<open>favorites.some(...)\<close> stops at the first element for which the callback is true.\<close>

fun some_favorite :: "json list \<Rightarrow> string \<Rightarrow> js_error + bool" where
  "some_favorite [] n = Inr False"
| "some_favorite (fav # rest) n =
     (case fav_name_lower fav of
        Inl e \<Rightarrow> Inl e
      | Inr s \<Rightarrow> if s = toLowerCase n then Inr True else some_favorite rest n)"

fun filter_favorites :: "json list \<Rightarrow> string \<Rightarrow> js_error + json list" where
  "filter_favorites [] n = Inr []"
| "filter_favorites (fav # rest) n =
     (case fav_name_lower fav of
        Inl e \<Rightarrow> Inl e
      | Inr s \<Rightarrow>
          (case filter_favorites rest n of
             Inl e \<Rightarrow> Inl e
           | Inr kept \<Rightarrow> Inr (if s \<noteq> toLowerCase n then fav # kept else kept)))"

definition new_favorite :: "location \<Rightarrow> string \<Rightarrow> json" where
  "new_favorite loc stamp =
     JObj [(''name'', JStr (name loc)), (''country'', JStr (country loc)),
           (''lat'', JNum (lat loc)), (''lon'', JNum (lon loc)),
           (''addedAt'', JStr stamp)]"

definition addToFavorites :: "world \<Rightarrow> location \<Rightarrow> js_error + add_result \<times> world" where
  "addToFavorites w loc =
     (case getFavorites w of
        Inl e \<Rightarrow> Inl e
      | Inr (favorites, w1) \<Rightarrow>
          (case favorites of
             JArr favs \<Rightarrow>
               (case some_favorite favs (name loc) of
                  Inl e \<Rightarrow> Inl e
                | Inr exists \<Rightarrow>
                    if \<not> exists
                    then (let updatedFavorites = favs @ [new_favorite loc (now w1)]
                          in case setItem w1 FAVORITES (JArr updatedFavorites) of
                               Inl e \<Rightarrow> Inl e
                             | Inr (ok, w2) \<Rightarrow> Inr (Success updatedFavorites, w2))
                    else Inr (Failure ''Location already in favorites'', w1))
           | _ \<Rightarrow> Inl TypeError))"

definition removeFromFavorites :: "world \<Rightarrow> string \<Rightarrow> js_error + json list \<times> world" where
  "removeFromFavorites w locationName =
     (case getFavorites w of
        Inl e \<Rightarrow> Inl e
      | Inr (favorites, w1) \<Rightarrow>
          (case favorites of
             JArr favs \<Rightarrow>
               (case filter_favorites favs locationName of
                  Inl e \<Rightarrow> Inl e
                | Inr updatedFavorites \<Rightarrow>
                    (case setItem w1 FAVORITES (JArr updatedFavorites) of
                       Inl e \<Rightarrow> Inl e
                     | Inr (ok, w2) \<Rightarrow> Inr (updatedFavorites, w2)))
           | _ \<Rightarrow> Inl TypeError))"

definition isFavorite :: "world \<Rightarrow> string \<Rightarrow> js_error + bool \<times> world" where
  "isFavorite w locationName =
     (case getFavorites w of
        Inl e \<Rightarrow> Inl e
      | Inr (favorites, w1) \<Rightarrow>
          (case favorites of
             JArr favs \<Rightarrow>
               (case some_favorite favs locationName of
                  Inl e \<Rightarrow> Inl e
                | Inr b \<Rightarrow> Inr (b, w1))
           | _ \<Rightarrow> Inl TypeError))"

subsection \<open>Theme and unit\<close>

definition getTheme :: "world \<Rightarrow> js_error + json \<times> world" where
  "getTheme w = getItem w THEME (JStr ''light'')"

definition setTheme :: "world \<Rightarrow> string \<Rightarrow> js_error + unit \<times> world" where
  "setTheme w theme =
     (case setItem w THEME (JStr theme) of
        Inl e \<Rightarrow> Inl e
      | Inr (ok, w1) \<Rightarrow> Inr ((), w1))"

definition getUnit :: "world \<Rightarrow> js_error + json \<times> world" where
  "getUnit w = getItem w UNIT (JStr ''celsius'')"

definition setUnit :: "world \<Rightarrow> string \<Rightarrow> js_error + unit \<times> world" where
  "setUnit w unit =
     (case setItem w UNIT (JStr unit) of
        Inl e \<Rightarrow> Inl e
      | Inr (ok, w1) \<Rightarrow> Inr ((), w1))"

subsection \<open>\<open>clearAll\<close> and \<open>getStorageStats\<close>\<close>

fun remove_keys :: "world \<Rightarrow> string list \<Rightarrow> js_error + world" where
  "remove_keys w [] = Inr w"
| "remove_keys w (key # rest) =
     (case localStorage_removeItem w key of
        Inl e \<Rightarrow> Inl e
      | Inr w1 \<Rightarrow> remove_keys w1 rest)"

definition clearAll :: "world \<Rightarrow> js_error + unit \<times> world" where
  "clearAll w =
     (case remove_keys w (map snd KEYS) of
        Inl e \<Rightarrow> Inl e
      | Inr w1 \<Rightarrow> Inr ((), w1))"

text \<open>
  \<open>(size / 1024).toFixed(2)\<close>. The quotient of a byte count by 1024 is exact in binary
  floating point, and \<open>toFixed(2)\<close> takes the integer \<open>n\<close> with \<open>n / 100\<close> nearest to it, the
  larger one on a tie: \<open>n = (100 * bytes + 512) div 1024\<close>.
\<close>

definition hundredths_of_KB :: "nat \<Rightarrow> nat" where
  "hundredths_of_KB bytes = (100 * bytes + 512) div 1024"

definition digit_char :: "nat \<Rightarrow> char" where
  "digit_char d = ''0123456789'' ! (d mod 10)"

fun decimal :: "nat \<Rightarrow> string" where
  "decimal n = (if n < 10 then [digit_char n] else decimal (n div 10) @ [digit_char n])"

declare decimal.simps [simp del]

definition toFixed2 :: "nat \<Rightarrow> string" where
  "toFixed2 n = decimal (n div 100) @ ''.'' @ [digit_char (n div 10), digit_char n]"

definition sizeKB_text :: "nat \<Rightarrow> string" where
  "sizeKB_text bytes = toFixed2 (hundredths_of_KB bytes)"

record key_stats =
  size' :: nat
  sizeKB :: string

record storage_stats =
  individual :: "(string \<times> key_stats) list"
  total :: nat
  totalKB :: string

text \<open>The loop over \<open>Object.entries(this.KEYS)\<close>, with \<open>stats\<close> and \<open>totalSize\<close> as it goes.\<close>

fun stats_loop ::
  "world \<Rightarrow> (string \<times> string) list \<Rightarrow> (string \<times> key_stats) list \<Rightarrow> nat
     \<Rightarrow> js_error + (string \<times> key_stats) list \<times> nat" where
  "stats_loop w [] stats totalSize = Inr (stats, totalSize)"
| "stats_loop w ((nm, key) # rest) stats totalSize =
     (case localStorage_getItem w key of
        Inl e \<Rightarrow> Inl e
      | Inr item \<Rightarrow>
          (let sz = (case item of
                       None \<Rightarrow> 0
                     | Some s \<Rightarrow> if s = [] then 0 else blob_size s)
           in stats_loop w rest
                (AList.update nm \<lparr>size' = sz, sizeKB = sizeKB_text sz\<rparr> stats)
                (totalSize + sz)))"

definition getStorageStats :: "world \<Rightarrow> js_error + storage_stats \<times> world" where
  "getStorageStats w =
     (case stats_loop w KEYS [] 0 of
        Inl e \<Rightarrow> Inl e
      | Inr (stats, totalSize) \<Rightarrow>
          Inr (\<lparr>individual = stats, total = totalSize, totalKB = sizeKB_text totalSize\<rparr>, w))"

section \<open>The chart module\<close>

subsection \<open>Forecast data and chart configurations\<close>

record forecast_day =
  date :: string
  maxTemp :: real
  minTemp :: real
  avgTemp :: real
  humidity :: real
  precipitation :: "real option"
  windSpeed :: real

text \<open>
  Of a configuration object the model keeps the chart type, the labels and the series.
  The colours, fonts, axes and tooltips are presentation: \<open>isDarkMode\<close>, kept with the
  configuration, chooses between their two palettes.
\<close>

record dataset =
  label :: string
  series :: "real list"

record chart_data =
  labels :: "string list"
  datasets :: "dataset list"

record chart_config =
  chart_type :: string
  chart_data :: chart_data
  isDarkMode :: bool

definition temperature_config :: "forecast_day list \<Rightarrow> bool \<Rightarrow> chart_config" where
  "temperature_config forecastData dark =
     \<lparr>chart_type = ''line'',
      chart_data =
        \<lparr>labels = map date forecastData,
         datasets =
           [\<lparr>label = ''Max Temperature'', series = map maxTemp forecastData\<rparr>,
            \<lparr>label = ''Average Temperature'', series = map avgTemp forecastData\<rparr>,
            \<lparr>label = ''Min Temperature'', series = map minTemp forecastData\<rparr>]\<rparr>,
      isDarkMode = dark\<rparr>"

text \<open>\<open>day.precipitation || 0\<close>: a missing precipitation counts as zero.\<close>

definition humidity_config :: "forecast_day list \<Rightarrow> bool \<Rightarrow> chart_config" where
  "humidity_config forecastData dark =
     \<lparr>chart_type = ''bar'',
      chart_data =
        \<lparr>labels = map date forecastData,
         datasets =
           [\<lparr>label = ''Humidity (%)'', series = map humidity forecastData\<rparr>,
            \<lparr>label = ''Precipitation (mm)'',
             series = map (\<lambda>day. case precipitation day of None \<Rightarrow> 0 | Some p \<Rightarrow> p)
                        forecastData\<rparr>]\<rparr>,
      isDarkMode = dark\<rparr>"

definition wind_config :: "forecast_day list \<Rightarrow> bool \<Rightarrow> chart_config" where
  "wind_config forecastData dark =
     \<lparr>chart_type = ''line'',
      chart_data =
        \<lparr>labels = map date forecastData,
         datasets = [\<lparr>label = ''Wind Speed (km/h)'', series = map windSpeed forecastData\<rparr>]\<rparr>,
      isDarkMode = dark\<rparr>"

subsection \<open>The page and the rendering engine\<close>

text \<open>
  A chart of the engine lives from \<open>new Chart\<close> to its \<open>destroy()\<close>. The engine numbers its
  charts; the number is the handle the module holds. \<open>live\<close> lists the charts that were
  constructed and not destroyed, each with the surface it draws on; \<open>engine_trace\<close> records
  the constructor and \<open>destroy\<close> calls in the order they were made.
\<close>

record chart =
  canvas :: string
  config :: chart_config

datatype engine_event = Constructed nat string | Destroyed nat | Updated nat

text \<open>
  \<open>surfaces\<close> are the ids under which \<open>document.getElementById\<close> finds an element;
  \<open>chartInstances\<close> is the registry of the module, a chart handle for each canvas id.
\<close>

record chart_world =
  surfaces :: "string list"
  chartInstances :: "(string \<times> nat) list"
  live :: "(nat \<times> chart) list"
  next_handle :: nat
  engine_trace :: "engine_event list"
  chart_console :: "log_entry list"

definition new_Chart :: "chart_world \<Rightarrow> string \<Rightarrow> chart_config \<Rightarrow> nat \<times> chart_world" where
  "new_Chart cw canvasId cfg =
     (let h = next_handle cw
      in (h, cw\<lparr>live := live cw @ [(h, \<lparr>canvas = canvasId, config = cfg\<rparr>)],
                next_handle := Suc h,
                engine_trace := engine_trace cw @ [Constructed h canvasId]\<rparr>))"

definition chart_destroy :: "chart_world \<Rightarrow> nat \<Rightarrow> chart_world" where
  "chart_destroy cw h =
     cw\<lparr>live := filter (\<lambda>(h', c). h' \<noteq> h) (live cw),
        engine_trace := engine_trace cw @ [Destroyed h]\<rparr>"

definition chart_update :: "chart_world \<Rightarrow> nat \<Rightarrow> chart_data \<Rightarrow> chart_world" where
  "chart_update cw h newData =
     cw\<lparr>live := map (\<lambda>(h', c). if h' = h
                                then (h', c\<lparr>config := (config c)\<lparr>chart_data := newData\<rparr>\<rparr>)
                                else (h', c)) (live cw),
        engine_trace := engine_trace cw @ [Updated h]\<rparr>"

subsection \<open>The registry object\<close>

text \<open>
  \<open>chartInstances\<close> starts as the object literal \<open>{}\<close>, so a read \<open>chartInstances[id]\<close> that
  finds no property of its own goes on to \<open>Object.prototype\<close>. Under the names below it
  finds a built-in there: a truthy value that is no chart and has neither \<open>destroy\<close> nor
  \<open>update\<close>.
\<close>

definition Object_prototype_names :: "string list" where
  "Object_prototype_names =
     [''constructor'', ''__defineGetter__'', ''__defineSetter__'', ''hasOwnProperty'',
      ''__lookupGetter__'', ''__lookupSetter__'', ''isPrototypeOf'', ''propertyIsEnumerable'',
      ''toString'', ''valueOf'', ''__proto__'', ''toLocaleString'']"

datatype registry_value = Held nat | Inherited | Undefined

definition registry_get :: "chart_world \<Rightarrow> string \<Rightarrow> registry_value" where
  "registry_get cw canvasId =
     (case map_of (chartInstances cw) canvasId of
        Some h \<Rightarrow> Held h
      | None \<Rightarrow> if canvasId \<in> set Object_prototype_names then Inherited else Undefined)"

text \<open>
  \<open>Object.keys\<close> lists the properties that are array indices first, in ascending numeric
  order, and the other names after them in the order they were created. An array index
  is the decimal numeral, without leading zeros, of a number below \<open>2^32 - 1\<close>. Two such
  numerals compare as their numbers do when the shorter one comes first and, at equal
  length, the one with the smaller digit at the first difference.
\<close>

fun decimal_less :: "string \<Rightarrow> string \<Rightarrow> bool" where
  "decimal_less (a # as) (b # bs) = (code a < code b \<or> (code a = code b \<and> decimal_less as bs))"
| "decimal_less _ _ = False"

definition index_le :: "string \<Rightarrow> string \<Rightarrow> bool" where
  "index_le a b = (length a < length b \<or> (length a = length b \<and> \<not> decimal_less b a))"

definition is_array_index :: "string \<Rightarrow> bool" where
  "is_array_index s =
     (s \<noteq> [] \<and> list_all is_digit s \<and> (s = ''0'' \<or> hd s \<noteq> CHR ''0'') \<and>
      (length s < 10 \<or> (length s = 10 \<and> decimal_less s ''4294967295'')))"

fun insert_index :: "string \<Rightarrow> string list \<Rightarrow> string list" where
  "insert_index k [] = [k]"
| "insert_index k (x # xs) = (if index_le k x then k # x # xs else x # insert_index k xs)"

definition sort_indices :: "string list \<Rightarrow> string list" where
  "sort_indices ks = foldr insert_index ks []"

definition Object_keys :: "(string \<times> nat) list \<Rightarrow> string list" where
  "Object_keys reg =
     sort_indices (filter is_array_index (map fst reg)) @
     filter (\<lambda>k. \<not> is_array_index k) (map fst reg)"

subsection \<open>The operations\<close>

text \<open>
  The part the three \<open>create\<close> functions share once the surface is found. Calling
  \<open>destroy()\<close> on an inherited built-in throws a \<open>TypeError\<close>, before anything is
  constructed or stored.
\<close>

definition store_new_chart ::
  "chart_world \<Rightarrow> string \<Rightarrow> chart_config \<Rightarrow> nat option \<times> chart_world" where
  "store_new_chart cw canvasId cfg =
     (let (h', cw2) = new_Chart cw canvasId cfg
      in (Some h', cw2\<lparr>chartInstances := AList.update canvasId h' (chartInstances cw2)\<rparr>))"

definition replace_chart ::
  "chart_world \<Rightarrow> string \<Rightarrow> chart_config \<Rightarrow> js_error + nat option \<times> chart_world" where
  "replace_chart cw canvasId cfg =
     (case registry_get cw canvasId of
        Held h \<Rightarrow> Inr (store_new_chart (chart_destroy cw h) canvasId cfg)
      | Inherited \<Rightarrow> Inl TypeError
      | Undefined \<Rightarrow> Inr (store_new_chart cw canvasId cfg))"

definition createTemperatureChart ::
  "chart_world \<Rightarrow> string \<Rightarrow> forecast_day list \<Rightarrow> bool
     \<Rightarrow> js_error + nat option \<times> chart_world" where
  "createTemperatureChart cw canvasId forecastData dark =
     (if canvasId \<notin> set (surfaces cw)
      then Inr (None,
                cw\<lparr>chart_console := chart_console cw @
                      [ConsoleError (''Canvas element '' @ canvasId @ '' not found'') None]\<rparr>)
      else replace_chart cw canvasId (temperature_config forecastData dark))"

definition createHumidityChart ::
  "chart_world \<Rightarrow> string \<Rightarrow> forecast_day list \<Rightarrow> bool
     \<Rightarrow> js_error + nat option \<times> chart_world" where
  "createHumidityChart cw canvasId forecastData dark =
     (if canvasId \<notin> set (surfaces cw) then Inr (None, cw)
      else replace_chart cw canvasId (humidity_config forecastData dark))"

definition createWindChart ::
  "chart_world \<Rightarrow> string \<Rightarrow> forecast_day list \<Rightarrow> bool
     \<Rightarrow> js_error + nat option \<times> chart_world" where
  "createWindChart cw canvasId forecastData dark =
     (if canvasId \<notin> set (surfaces cw) then Inr (None, cw)
      else replace_chart cw canvasId (wind_config forecastData dark))"

text \<open>
  On an inherited built-in \<open>updateChart\<close> skips the warning, sets \<open>data\<close> on the built-in,
  which is no part of this state, and throws at \<open>update\<close>.
\<close>

definition updateChart :: "chart_world \<Rightarrow> string \<Rightarrow> chart_data \<Rightarrow> js_error + chart_world" where
  "updateChart cw canvasId newData =
     (case registry_get cw canvasId of
        Undefined \<Rightarrow>
          Inr (cw\<lparr>chart_console := chart_console cw @
                     [ConsoleWarn (''No chart found with id: '' @ canvasId)]\<rparr>)
      | Held h \<Rightarrow> Inr (chart_update cw h newData)
      | Inherited \<Rightarrow> Inl TypeError)"

definition destroyChart :: "chart_world \<Rightarrow> string \<Rightarrow> js_error + chart_world" where
  "destroyChart cw canvasId =
     (case registry_get cw canvasId of
        Held h \<Rightarrow>
          (let cw1 = chart_destroy cw h
           in Inr (cw1\<lparr>chartInstances := AList.delete canvasId (chartInstances cw1)\<rparr>))
      | Undefined \<Rightarrow> Inr cw
      | Inherited \<Rightarrow> Inl TypeError)"

text \<open>\<open>Object.keys\<close> takes the ids first; \<open>forEach\<close> then destroys them one by one.\<close>

fun destroy_each :: "chart_world \<Rightarrow> string list \<Rightarrow> js_error + chart_world" where
  "destroy_each cw [] = Inr cw"
| "destroy_each cw (canvasId # rest) =
     (case destroyChart cw canvasId of
        Inl e \<Rightarrow> Inl e
      | Inr cw1 \<Rightarrow> destroy_each cw1 rest)"

definition destroyAllCharts :: "chart_world \<Rightarrow> js_error + chart_world" where
  "destroyAllCharts cw = destroy_each cw (Object_keys (chartInstances cw))"

text \<open>The module as the page loads it: an empty registry and an engine without charts.\<close>

definition initial_charts :: "string list \<Rightarrow> chart_world" where
  "initial_charts ids =
     \<lparr>surfaces = ids, chartInstances = [], live = [], next_handle = 0,
      engine_trace = [], chart_console = []\<rparr>"

text \<open>The handles of the live charts that draw on the surface \<open>canvasId\<close>.\<close>

definition live_handles :: "chart_world \<Rightarrow> string \<Rightarrow> nat list" where
  "live_handles cw canvasId = map fst (filter (\<lambda>(h, c). canvas c = canvasId) (live cw))"

text \<open>
  The states the module can be in: what the operations make of the initial state, while
  the page is free to add and remove elements between two calls. A call that throws
  leaves the state as it was.
\<close>

inductive reachable :: "chart_world \<Rightarrow> bool" where
  init: "reachable (initial_charts ids)"
| page: "reachable cw \<Longrightarrow> reachable (cw\<lparr>surfaces := ids\<rparr>)"
| temperature:
    "reachable cw \<Longrightarrow> createTemperatureChart cw i d m = Inr (r, cw') \<Longrightarrow> reachable cw'"
| humidity:
    "reachable cw \<Longrightarrow> createHumidityChart cw i d m = Inr (r, cw') \<Longrightarrow> reachable cw'"
| wind:
    "reachable cw \<Longrightarrow> createWindChart cw i d m = Inr (r, cw') \<Longrightarrow> reachable cw'"
| update: "reachable cw \<Longrightarrow> updateChart cw i nd = Inr cw' \<Longrightarrow> reachable cw'"
| destroy: "reachable cw \<Longrightarrow> destroyChart cw i = Inr cw' \<Longrightarrow> reachable cw'"
| destroy_all: "reachable cw \<Longrightarrow> destroyAllCharts cw = Inr cw' \<Longrightarrow> reachable cw'"

section \<open>Notions used in the statements\<close>

text \<open>A write of \<open>val\<close> under \<open>key\<close> goes through: \<open>localStorage.setItem\<close> does not throw.\<close>

definition writable :: "world \<Rightarrow> string \<Rightarrow> json \<Rightarrow> bool" where
  "writable w key val =
     (available w \<and> usage (AList.update key (JSON_stringify val) (items w)) \<le> quota w)"

text \<open>The byte length of the raw text stored under a key, zero when the key is absent.\<close>

definition stored_size :: "world \<Rightarrow> string \<Rightarrow> nat" where
  "stored_size w key = (case map_of (items w) key of None \<Rightarrow> 0 | Some s \<Rightarrow> blob_size s)"

text \<open>
  The registry and the engine agree: the live charts on a surface are exactly the handle
  the registry holds for it, no handle is used twice, the handles still to come are
  fresh, and no entry of the registry hides a built-in of \<open>Object.prototype\<close>.
\<close>

definition registry_ok :: "chart_world \<Rightarrow> bool" where
  "registry_ok cw =
     ((\<forall>i. live_handles cw i =
             (case map_of (chartInstances cw) i of None \<Rightarrow> [] | Some h \<Rightarrow> [h])) \<and>
      distinct (map fst (live cw)) \<and>
      (\<forall>h\<in>set (map fst (live cw)). h < next_handle cw) \<and>
      (\<forall>k\<in>set (map fst (chartInstances cw)). k \<notin> set Object_prototype_names))"

subsection \<open>Example states\<close>

definition tokyo :: json where
  "tokyo = JObj [(''name'', JStr ''Tokyo''), (''country'', JStr ''JP''), (''lat'', JNum ''35.68''),
                 (''lon'', JNum ''139.69''), (''addedAt'', JStr ''2024-01-01T00:00:00.000Z'')]"

definition paris :: location where
  "paris = \<lparr>name = ''Paris'', country = ''FR'', lat = ''48.85'', lon = ''2.35''\<rparr>"

definition paris_entry :: json where
  "paris_entry = JObj [(''name'', JStr ''Paris''), (''country'', JStr ''FR''),
                       (''lat'', JNum ''48.85''), (''lon'', JNum ''2.35''),
                       (''addedAt'', JStr ''2024-05-01T12:00:00.000Z'')]"

definition example_store :: world where
  "example_store =
     \<lparr>items =
        [(''weather_search_history'', ''[\"Paris\",\"London\",\"PARIS\"]''),
         (''weather_favorites'',
          ''[{\"name\":\"Tokyo\",\"country\":\"JP\",\"lat\":35.68,\"lon\":139.69,\"addedAt\":\"2024-01-01T00:00:00.000Z\"}]'')],
      available = True, quota = 4096, console = [], now = ''2024-05-01T12:00:00.000Z''\<rparr>"

definition ten_cities :: "string list" where
  "ten_cities = [''Rome'', ''Lima'', ''Cairo'', ''Quito'', ''Paris'', ''Tokyo'', ''Delhi'',
                 ''Seoul'', ''Hanoi'', ''Dakar'']"

definition full_store :: world where
  "full_store =
     \<lparr>items = [(''weather_search_history'',
        ''[\"Rome\",\"Lima\",\"Cairo\",\"Quito\",\"Paris\",\"Tokyo\",\"Delhi\",\"Seoul\",\"Hanoi\",\"Dakar\"]'')],
      available = True, quota = 4096, console = [], now = ''2024-05-01T12:00:00.000Z''\<rparr>"

text \<open>The example store once Paris has been added to its favorites.\<close>

definition after_paris :: world where
  "after_paris =
     example_store\<lparr>items :=
       [(''weather_search_history'', ''[\"Paris\",\"London\",\"PARIS\"]''),
        (''weather_favorites'',
         ''[{\"name\":\"Tokyo\",\"country\":\"JP\",\"lat\":35.68,\"lon\":139.69,\"addedAt\":\"2024-01-01T00:00:00.000Z\"},{\"name\":\"Paris\",\"country\":\"FR\",\"lat\":48.85,\"lon\":2.35,\"addedAt\":\"2024-05-01T12:00:00.000Z\"}]'')]\<rparr>"

text \<open>The same content in a store that has no room left, and in one that cannot be reached.\<close>

definition exhausted_store :: world where
  "exhausted_store = example_store\<lparr>quota := 0\<rparr>"

definition locked_store :: world where
  "locked_store = example_store\<lparr>available := False\<rparr>"

definition corrupt_store :: world where
  "corrupt_store =
     \<lparr>items = [(''weather_theme'', ''{oops'')],
      available = True, quota = 4096, console = [], now = ''2024-05-01T12:00:00.000Z''\<rparr>"

text \<open>A page with one canvas, on which a temperature chart has been drawn once.\<close>

definition one_chart :: chart_world where
  "one_chart =
     \<lparr>surfaces = [''cv1''], chartInstances = [(''cv1'', 0)],
      live = [(0, \<lparr>canvas = ''cv1'', config = temperature_config [] False\<rparr>)],
      next_handle = 1, engine_trace = [Constructed 0 ''cv1''], chart_console = []\<rparr>"

text \<open>The same state after the page has removed the canvas.\<close>

definition orphaned_chart :: chart_world where
  "orphaned_chart = one_chart\<lparr>surfaces := []\<rparr>"

section \<open>The storage module: properties\<close>

subsection \<open>Reading and writing\<close>

lemma getItem_total: "\<exists>v w1. getItem w key d = Inr (v, w1)"
  by (simp add: getItem_def split: sum.split)

lemma getItem_keeps:
  assumes "getItem w key d = Inr (v, w1)"
  shows "items w1 = items w \<and> available w1 = available w \<and> quota w1 = quota w \<and> now w1 = now w"
  using assms by (auto simp: getItem_def console_error_def split: sum.splits)

lemma setItem_written:
  "writable w key val \<Longrightarrow>
     setItem w key val = Inr (True, w\<lparr>items := AList.update key (JSON_stringify val) (items w)\<rparr>)"
  by (simp add: setItem_def localStorage_setItem_def writable_def Let_def)

lemma setItem_refused:
  "\<not> writable w key val \<Longrightarrow>
     setItem w key val =
       Inr (False, console_error w (''Error writing '' @ key @ '' to localStorage:'')
              (Some (if available w then QuotaExceededError else SecurityError)))"
  by (simp add: setItem_def localStorage_setItem_def writable_def Let_def)

lemma setItem_total: "\<exists>ok w1. setItem w key val = Inr (ok, w1)"
  by (cases "writable w key val") (auto simp: setItem_written setItem_refused)

lemma setItem_items:
  assumes "setItem w key val = Inr (ok, w2)"
  shows "items w2 = (if writable w key val
                     then AList.update key (JSON_stringify val) (items w) else items w)"
  using assms by (cases "writable w key val") (auto simp: setItem_written setItem_refused console_error_def)

lemma filter_history_strings:
  "filter_history (map JStr h) city =
     Inr (map JStr (filter (\<lambda>s. toLowerCase s \<noteq> toLowerCase city) h))"
  by (induction h) simp_all

lemma addToSearchHistory_value:
  assumes "getSearchHistory w = Inr (JArr (map JStr h), w1)"
  shows "\<exists>ok w2.
           setItem w1 SEARCH_HISTORY
             (JArr (map JStr (take 10 (city # filter (\<lambda>s. toLowerCase s \<noteq> toLowerCase city) h))))
             = Inr (ok, w2) \<and>
           addToSearchHistory w city =
             Inr (map JStr (take 10 (city # filter (\<lambda>s. toLowerCase s \<noteq> toLowerCase city) h)), w2)"
proof -
  let ?r = "take 10 (city # filter (\<lambda>s. toLowerCase s \<noteq> toLowerCase city) h)"
  obtain ok w2 where s: "setItem w1 SEARCH_HISTORY (JArr (map JStr ?r)) = Inr (ok, w2)"
    using setItem_total by blast
  have "addToSearchHistory w city = Inr (map JStr ?r, w2)"
    using assms s by (simp add: addToSearchHistory_def filter_history_strings take_map)
  with s show ?thesis by blast
qed

lemma getItem_writable:
  assumes "getItem w key d = Inr (v, w1)"
  shows "writable w1 k val = writable w k val"
  using getItem_keeps [OF assms] by (simp add: writable_def)

subsection \<open>Search history\<close>

text \<open>
  Claim C1. Whatever the search history read from the store and whatever the city,
  \<open>addToSearchHistory\<close> returns a sequence that starts with the city as it was given; that
  entry is the only one equal to the city when case is ignored; behind it come the
  entries of the old history that differ from the city when case is ignored, in their
  old order.
\<close>

theorem addToSearchHistory_single_first:
  assumes "getSearchHistory w = Inr (JArr (map JStr h), w1)"
  shows "\<exists>r w2. addToSearchHistory w city = Inr (map JStr r, w2) \<and>
           r \<noteq> [] \<and> hd r = city \<and>
           filter (\<lambda>s. toLowerCase s = toLowerCase city) r = [city] \<and>
           tl r = take 9 (filter (\<lambda>s. toLowerCase s \<noteq> toLowerCase city) h)"
proof -
  let ?kept = "filter (\<lambda>s. toLowerCase s \<noteq> toLowerCase city) h"
  let ?r = "take 10 (city # ?kept)"
  obtain ok w2 where "addToSearchHistory w city = Inr (map JStr ?r, w2)"
    using addToSearchHistory_value [OF assms] by blast
  moreover have r: "?r = city # take 9 ?kept" by simp
  moreover have "filter (\<lambda>s. toLowerCase s = toLowerCase city) (take 9 ?kept) = []"
    by (auto simp: filter_empty_conv dest: in_set_takeD)
  ultimately show ?thesis
    by (intro exI [of _ ?r] exI [of _ w2]) simp
qed

theorem addToSearchHistory_single_first_witness:
  "\<exists>r w2. addToSearchHistory example_store ''paris'' = Inr (map JStr r, w2) \<and>
     r \<noteq> [] \<and> hd r = ''paris'' \<and>
     filter (\<lambda>s. toLowerCase s = toLowerCase ''paris'') r = [''paris''] \<and>
     tl r = [''London'']"
proof -
  have h: "getSearchHistory example_store =
             Inr (JArr (map JStr [''Paris'', ''London'', ''PARIS'']), example_store)"
    by code_simp
  have e: "take 9 (filter (\<lambda>s. toLowerCase s \<noteq> toLowerCase ''paris'')
             [''Paris'', ''London'', ''PARIS'']) = [''London'']"
    by code_simp
  show ?thesis
    using addToSearchHistory_single_first [OF h, of "''paris''"] unfolding e .
qed

text \<open>
  Claim C2. The sequence \<open>addToSearchHistory\<close> returns has at most ten entries, and it is
  this sequence that is handed to the store: after the call the store holds its
  serialization when the write went through, and what it held before otherwise. When
  the old history has ten entries and none of them is the city, the result is the city
  followed by the first nine: the last, oldest entry is gone.
\<close>

theorem addToSearchHistory_at_most_ten:
  assumes "getSearchHistory w = Inr (JArr (map JStr h), w1)"
  shows "\<exists>r w2. addToSearchHistory w city = Inr (map JStr r, w2) \<and>
           length r \<le> 10 \<and>
           items w2 =
             (if writable w SEARCH_HISTORY (JArr (map JStr r))
              then AList.update SEARCH_HISTORY (JSON_stringify (JArr (map JStr r))) (items w)
              else items w) \<and>
           (length h = 10 \<and> (\<forall>s\<in>set h. toLowerCase s \<noteq> toLowerCase city)
              \<longrightarrow> r = city # butlast h)"
proof -
  let ?kept = "filter (\<lambda>s. toLowerCase s \<noteq> toLowerCase city) h"
  let ?r = "take 10 (city # ?kept)"
  obtain ok w2 where
    s: "setItem w1 SEARCH_HISTORY (JArr (map JStr ?r)) = Inr (ok, w2)" and
    a: "addToSearchHistory w city = Inr (map JStr ?r, w2)"
    using addToSearchHistory_value [OF assms] by blast
  have k: "items w1 = items w"
    using assms getItem_keeps unfolding getSearchHistory_def by blast
  have wr: "writable w1 SEARCH_HISTORY (JArr (map JStr ?r)) = writable w SEARCH_HISTORY (JArr (map JStr ?r))"
    using assms getItem_writable unfolding getSearchHistory_def by blast
  have i: "items w2 =
             (if writable w SEARCH_HISTORY (JArr (map JStr ?r))
              then AList.update SEARCH_HISTORY (JSON_stringify (JArr (map JStr ?r))) (items w)
              else items w)"
    using setItem_items [OF s] k wr by simp
  have e: "length h = 10 \<and> (\<forall>s\<in>set h. toLowerCase s \<noteq> toLowerCase city) \<longrightarrow> ?r = city # butlast h"
  proof
    assume f: "length h = 10 \<and> (\<forall>s\<in>set h. toLowerCase s \<noteq> toLowerCase city)"
    then have "?kept = h" by simp
    moreover have "take 9 h = butlast h" using f by (simp add: butlast_conv_take)
    ultimately show "?r = city # butlast h" by simp
  qed
  have l: "length ?r \<le> 10" by simp
  show ?thesis using a l i e by blast
qed

theorem addToSearchHistory_at_most_ten_witness:
  "\<exists>w2. addToSearchHistory full_store ''Oslo'' =
           Inr (map JStr [''Oslo'', ''Rome'', ''Lima'', ''Cairo'', ''Quito'', ''Paris'', ''Tokyo'',
                          ''Delhi'', ''Seoul'', ''Hanoi''], w2)"
proof -
  have h: "getSearchHistory full_store = Inr (JArr (map JStr ten_cities), full_store)"
    by code_simp
  have l: "length ten_cities = 10"
    by (simp add: ten_cities_def)
  have d: "\<forall>s\<in>set ten_cities. toLowerCase s \<noteq> toLowerCase ''Oslo''"
    by code_simp
  obtain r w2 where a: "addToSearchHistory full_store ''Oslo'' = Inr (map JStr r, w2)"
    and e: "length ten_cities = 10 \<and> (\<forall>s\<in>set ten_cities. toLowerCase s \<noteq> toLowerCase ''Oslo'')
              \<longrightarrow> r = ''Oslo'' # butlast ten_cities"
    using addToSearchHistory_at_most_ten [OF h, of "''Oslo''"] by blast
  have "r = ''Oslo'' # butlast ten_cities" using e l d by blast
  then have "r = [''Oslo'', ''Rome'', ''Lima'', ''Cairo'', ''Quito'', ''Paris'', ''Tokyo'',
                  ''Delhi'', ''Seoul'', ''Hanoi'']"
    by (simp add: ten_cities_def)
  with a show ?thesis by blast
qed

subsection \<open>Favorites\<close>

lemma some_favorite_named:
  assumes "\<forall>f\<in>set favs. \<not> isl (fav_name_lower f)"
  shows "some_favorite favs n = Inr (\<exists>f\<in>set favs. fav_name_lower f = Inr (toLowerCase n))"
  using assms
proof (induction favs)
  case Nil
  then show ?case by simp
next
  case (Cons f favs)
  then obtain s where "fav_name_lower f = Inr s" by (cases "fav_name_lower f") auto
  with Cons show ?case by auto
qed

lemma filter_favorites_named:
  assumes "\<forall>f\<in>set favs. \<not> isl (fav_name_lower f)"
  shows "filter_favorites favs n =
           Inr (filter (\<lambda>f. fav_name_lower f \<noteq> Inr (toLowerCase n)) favs)"
  using assms
proof (induction favs)
  case Nil
  then show ?case by simp
next
  case (Cons f favs)
  then obtain s where "fav_name_lower f = Inr s" by (cases "fav_name_lower f") auto
  with Cons show ?case by auto
qed

text \<open>
  Claim C3. Let the favorites read from the store be a list of entries that each carry a
  name. If one of them has the name of the location, case ignored, \<open>addToFavorites\<close>
  returns the failure result with the message \<open>Location already in favorites\<close> and the
  content of the store stays as it was. Otherwise it returns the success result with the
  old entries followed by one new entry: the name, country, latitude and longitude of
  the location, and the time of the call as \<open>addedAt\<close>. The new entry is found under the
  name of the location, and the updated list is what is handed to the store.
\<close>

theorem addToFavorites_duplicate_or_append:
  assumes "getFavorites w = Inr (JArr favs, w1)"
    and "\<forall>f\<in>set favs. \<not> isl (fav_name_lower f)"
  shows "if \<exists>f\<in>set favs. fav_name_lower f = Inr (toLowerCase (name loc))
         then addToFavorites w loc = Inr (Failure ''Location already in favorites'', w1) \<and>
              items w1 = items w
         else (let entry = JObj [(''name'', JStr (name loc)), (''country'', JStr (country loc)),
                                 (''lat'', JNum (lat loc)), (''lon'', JNum (lon loc)),
                                 (''addedAt'', JStr (now w))]
               in \<exists>w2. addToFavorites w loc = Inr (Success (favs @ [entry]), w2) \<and>
                    fav_name_lower entry = Inr (toLowerCase (name loc)) \<and>
                    items w2 =
                      (if writable w FAVORITES (JArr (favs @ [entry]))
                       then AList.update FAVORITES (JSON_stringify (JArr (favs @ [entry]))) (items w)
                       else items w))"
proof -
  let ?entry = "JObj [(''name'', JStr (name loc)), (''country'', JStr (country loc)),
                      (''lat'', JNum (lat loc)), (''lon'', JNum (lon loc)),
                      (''addedAt'', JStr (now w))]"
  let ?upd = "favs @ [?entry]"
  have k: "items w1 = items w" "now w1 = now w"
    using assms(1) getItem_keeps unfolding getFavorites_def by blast+
  have wr: "writable w1 FAVORITES (JArr ?upd) = writable w FAVORITES (JArr ?upd)"
    using assms(1) getItem_writable unfolding getFavorites_def by blast
  obtain ok w2 where s: "setItem w1 FAVORITES (JArr ?upd) = Inr (ok, w2)"
    using setItem_total by blast
  have i: "items w2 =
             (if writable w FAVORITES (JArr ?upd)
              then AList.update FAVORITES (JSON_stringify (JArr ?upd)) (items w)
              else items w)"
    using setItem_items [OF s] k wr by simp
  have f: "fav_name_lower ?entry = Inr (toLowerCase (name loc))"
    by (simp add: fav_name_lower_def)
  show ?thesis
  proof (cases "\<exists>f\<in>set favs. fav_name_lower f = Inr (toLowerCase (name loc))")
    case True
    then have "addToFavorites w loc = Inr (Failure ''Location already in favorites'', w1)"
      using assms by (simp add: addToFavorites_def some_favorite_named)
    with True k show ?thesis by simp
  next
    case False
    then have "addToFavorites w loc = Inr (Success ?upd, w2)"
      using assms s k by (simp add: addToFavorites_def some_favorite_named new_favorite_def)
    then have "\<exists>w2. addToFavorites w loc = Inr (Success ?upd, w2) \<and>
                 fav_name_lower ?entry = Inr (toLowerCase (name loc)) \<and>
                 items w2 =
                   (if writable w FAVORITES (JArr ?upd)
                    then AList.update FAVORITES (JSON_stringify (JArr ?upd)) (items w)
                    else items w)"
      using f i by blast
    then show ?thesis using False unfolding Let_def by (simp only: if_False)
  qed
qed

theorem addToFavorites_duplicate_or_append_witness:
  "addToFavorites example_store (paris\<lparr>name := ''TOKYO''\<rparr>) =
     Inr (Failure ''Location already in favorites'', example_store) \<and>
   addToFavorites example_store paris = Inr (Success [tokyo, paris_entry], after_paris) \<and>
   addToFavorites after_paris (paris\<lparr>name := ''paris''\<rparr>) =
     Inr (Failure ''Location already in favorites'', after_paris)"
proof -
  have h: "getFavorites example_store = Inr (JArr [tokyo], example_store)"
    by code_simp
  have wf: "\<forall>f\<in>set [tokyo]. \<not> isl (fav_name_lower f)"
    by code_simp
  have dup: "\<exists>f\<in>set [tokyo]. fav_name_lower f = Inr (toLowerCase (name (paris\<lparr>name := ''TOKYO''\<rparr>)))"
    by code_simp
  have new: "\<not> (\<exists>f\<in>set [tokyo]. fav_name_lower f = Inr (toLowerCase (name paris)))"
    by code_simp
  have a: "addToFavorites example_store (paris\<lparr>name := ''TOKYO''\<rparr>) =
             Inr (Failure ''Location already in favorites'', example_store)"
    using addToFavorites_duplicate_or_append [OF h wf, of "paris\<lparr>name := ''TOKYO''\<rparr>"] dup
    by (simp only: if_True)
  have e: "JObj [(''name'', JStr (name paris)), (''country'', JStr (country paris)),
                 (''lat'', JNum (lat paris)), (''lon'', JNum (lon paris)),
                 (''addedAt'', JStr (now example_store))] = paris_entry"
    by code_simp
  have "\<exists>w2. addToFavorites example_store paris = Inr (Success ([tokyo] @ [paris_entry]), w2)"
    using addToFavorites_duplicate_or_append [OF h wf, of paris] new
    unfolding Let_def e by (simp only: if_False) blast
  then obtain w2 where b0: "addToFavorites example_store paris = Inr (Success [tokyo, paris_entry], w2)"
    by auto
  have "snd (projr (addToFavorites example_store paris)) = after_paris"
    by code_simp
  then have b: "addToFavorites example_store paris = Inr (Success [tokyo, paris_entry], after_paris)"
    using b0 by simp
  have h2: "getFavorites after_paris = Inr (JArr [tokyo, paris_entry], after_paris)"
    by code_simp
  have wf2: "\<forall>f\<in>set [tokyo, paris_entry]. \<not> isl (fav_name_lower f)"
    by code_simp
  have dup2: "\<exists>f\<in>set [tokyo, paris_entry].
                fav_name_lower f = Inr (toLowerCase (name (paris\<lparr>name := ''paris''\<rparr>)))"
    by code_simp
  have c: "addToFavorites after_paris (paris\<lparr>name := ''paris''\<rparr>) =
             Inr (Failure ''Location already in favorites'', after_paris)"
    using addToFavorites_duplicate_or_append [OF h2 wf2, of "paris\<lparr>name := ''paris''\<rparr>"] dup2
    by (simp only: if_True)
  show ?thesis using a b c by blast
qed

lemma removeFromFavorites_value:
  assumes "getFavorites w = Inr (JArr favs, w1)"
    and "\<forall>f\<in>set favs. \<not> isl (fav_name_lower f)"
  shows "\<exists>ok w2.
           setItem w1 FAVORITES (JArr (filter (\<lambda>f. fav_name_lower f \<noteq> Inr (toLowerCase n)) favs))
             = Inr (ok, w2) \<and>
           removeFromFavorites w n =
             Inr (filter (\<lambda>f. fav_name_lower f \<noteq> Inr (toLowerCase n)) favs, w2)"
proof -
  let ?r = "filter (\<lambda>f. fav_name_lower f \<noteq> Inr (toLowerCase n)) favs"
  obtain ok w2 where s: "setItem w1 FAVORITES (JArr ?r) = Inr (ok, w2)"
    using setItem_total by blast
  have "removeFromFavorites w n = Inr (?r, w2)"
    using assms s by (simp add: removeFromFavorites_def filter_favorites_named)
  with s show ?thesis by blast
qed

lemma getItem_console:
  assumes "getItem w key d = Inr (v, w1)"
  shows "console w1 = console w @
           (case getItem_try w key d of
              Inr x \<Rightarrow> []
            | Inl e \<Rightarrow> [ConsoleError (''Error reading '' @ key @ '' from localStorage:'') (Some e)])"
  using assms by (auto simp: getItem_def console_error_def split: sum.splits)

lemma setItem_console:
  assumes "setItem w key val = Inr (ok, w2)"
  shows "console w2 = console w @
           (if writable w key val then []
            else [ConsoleError (''Error writing '' @ key @ '' to localStorage:'')
                    (Some (if available w then QuotaExceededError else SecurityError))])"
  using assms
  by (cases "writable w key val") (auto simp: setItem_written setItem_refused console_error_def)

text \<open>
  Claim C4, amended. Let the favorites read from the store be a list of entries that each
  carry a name. \<open>removeFromFavorites\<close> returns the entries whose name differs from the given
  one, case ignored, and hands that list to the store. When no entry has the name, the
  list comes back as it was, the empty list included. Removing the same name from a
  store that holds the result returns the result again. The console receives what the
  read and the write report and nothing else: nothing at all when both go through, an
  error for a read that fails and an error for a write that fails.
\<close>

theorem removeFromFavorites_filters:
  assumes "getFavorites w = Inr (JArr favs, w1)"
    and "\<forall>f\<in>set favs. \<not> isl (fav_name_lower f)"
  shows "\<exists>r w2. removeFromFavorites w n = Inr (r, w2) \<and>
           r = filter (\<lambda>f. fav_name_lower f \<noteq> Inr (toLowerCase n)) favs \<and>
           items w2 =
             (if writable w FAVORITES (JArr r)
              then AList.update FAVORITES (JSON_stringify (JArr r)) (items w)
              else items w) \<and>
           console w2 =
             console w @
             (case getItem_try w FAVORITES (JArr []) of
                Inr x \<Rightarrow> []
              | Inl e \<Rightarrow>
                  [ConsoleError (''Error reading '' @ FAVORITES @ '' from localStorage:'') (Some e)]) @
             (if writable w FAVORITES (JArr r) then []
              else [ConsoleError (''Error writing '' @ FAVORITES @ '' to localStorage:'')
                      (Some (if available w then QuotaExceededError else SecurityError))]) \<and>
           (\<not> isl (getItem_try w FAVORITES (JArr [])) \<and> writable w FAVORITES (JArr r)
              \<longrightarrow> console w2 = console w) \<and>
           ((\<forall>f\<in>set favs. fav_name_lower f \<noteq> Inr (toLowerCase n)) \<longrightarrow> r = favs) \<and>
           (\<forall>v v1. getFavorites v = Inr (JArr r, v1)
              \<longrightarrow> (\<exists>v2. removeFromFavorites v n = Inr (r, v2)))"
proof -
  let ?r = "filter (\<lambda>f. fav_name_lower f \<noteq> Inr (toLowerCase n)) favs"
  let ?rlog = "case getItem_try w FAVORITES (JArr []) of
                 Inr x \<Rightarrow> []
               | Inl e \<Rightarrow>
                   [ConsoleError (''Error reading '' @ FAVORITES @ '' from localStorage:'') (Some e)]"
  let ?wlog = "if writable w FAVORITES (JArr ?r) then []
                else [ConsoleError (''Error writing '' @ FAVORITES @ '' to localStorage:'')
                        (Some (if available w then QuotaExceededError else SecurityError))]"
  obtain ok w2 where
    s: "setItem w1 FAVORITES (JArr ?r) = Inr (ok, w2)" and
    a: "removeFromFavorites w n = Inr (?r, w2)"
    using removeFromFavorites_value [OF assms] by blast
  have k: "items w1 = items w" "available w1 = available w"
    using assms(1) getItem_keeps unfolding getFavorites_def by blast+
  have wr: "writable w1 FAVORITES (JArr ?r) = writable w FAVORITES (JArr ?r)"
    using assms(1) getItem_writable unfolding getFavorites_def by blast
  have i: "items w2 =
             (if writable w FAVORITES (JArr ?r)
              then AList.update FAVORITES (JSON_stringify (JArr ?r)) (items w)
              else items w)"
    using setItem_items [OF s] k wr by simp
  have c1: "console w1 = console w @ ?rlog"
    using assms(1) getItem_console unfolding getFavorites_def by blast
  have c2: "console w2 = console w1 @ ?wlog"
    using setItem_console [OF s] k wr by simp
  have c: "console w2 = console w @ ?rlog @ ?wlog"
    using c1 c2 by simp
  have q: "\<not> isl (getItem_try w FAVORITES (JArr [])) \<and> writable w FAVORITES (JArr ?r)
             \<longrightarrow> console w2 = console w"
    using c by (auto split: sum.splits)
  have u: "(\<forall>f\<in>set favs. fav_name_lower f \<noteq> Inr (toLowerCase n)) \<longrightarrow> ?r = favs"
    by simp
  have again: "\<forall>v v1. getFavorites v = Inr (JArr ?r, v1)
                 \<longrightarrow> (\<exists>v2. removeFromFavorites v n = Inr (?r, v2))"
  proof (intro allI impI)
    fix v v1
    assume g: "getFavorites v = Inr (JArr ?r, v1)"
    have wf: "\<forall>f\<in>set ?r. \<not> isl (fav_name_lower f)" using assms(2) by simp
    have "filter (\<lambda>f. fav_name_lower f \<noteq> Inr (toLowerCase n)) ?r = ?r" by simp
    then show "\<exists>v2. removeFromFavorites v n = Inr (?r, v2)"
      using removeFromFavorites_value [OF g wf, of n] by auto
  qed
  show ?thesis using a i c q u again by blast
qed

theorem removeFromFavorites_filters_witness:
  "(\<exists>w2. removeFromFavorites example_store ''TOKYO'' = Inr ([], w2) \<and>
          items w2 = AList.update FAVORITES ''[]'' (items example_store) \<and>
          console w2 = console example_store) \<and>
   (\<exists>w2. removeFromFavorites example_store ''Nowhere'' = Inr ([tokyo], w2) \<and>
          console w2 = console example_store) \<and>
   (\<exists>v2. removeFromFavorites
            (example_store\<lparr>items := AList.update FAVORITES ''[]'' (items example_store)\<rparr>)
            ''TOKYO'' = Inr ([], v2))"
proof -
  let ?emptied = "example_store\<lparr>items := AList.update FAVORITES ''[]'' (items example_store)\<rparr>"
  have h: "getFavorites example_store = Inr (JArr [tokyo], example_store)"
    by code_simp
  have wf: "\<forall>f\<in>set [tokyo]. \<not> isl (fav_name_lower f)"
    by code_simp
  have f1: "filter (\<lambda>f. fav_name_lower f \<noteq> Inr (toLowerCase ''TOKYO'')) [tokyo] = []"
    by code_simp
  have rd: "\<not> isl (getItem_try example_store FAVORITES (JArr []))"
    by code_simp
  have wr: "writable example_store FAVORITES (JArr [])"
    by code_simp
  have wr': "writable example_store FAVORITES (JArr [tokyo])"
    by code_simp
  have g: "getFavorites ?emptied = Inr (JArr [], ?emptied)"
    by code_simp
  have n: "\<forall>f\<in>set [tokyo]. fav_name_lower f \<noteq> Inr (toLowerCase ''Nowhere'')"
    by code_simp
  obtain r w2 where a: "removeFromFavorites example_store ''TOKYO'' = Inr (r, w2)"
    and r: "r = filter (\<lambda>f. fav_name_lower f \<noteq> Inr (toLowerCase ''TOKYO'')) [tokyo]"
    and i: "items w2 =
              (if writable example_store FAVORITES (JArr r)
               then AList.update FAVORITES (JSON_stringify (JArr r)) (items example_store)
               else items example_store)"
    and q: "\<not> isl (getItem_try example_store FAVORITES (JArr [])) \<and>
            writable example_store FAVORITES (JArr r) \<longrightarrow> console w2 = console example_store"
    and again: "\<forall>v v1. getFavorites v = Inr (JArr r, v1)
                  \<longrightarrow> (\<exists>v2. removeFromFavorites v ''TOKYO'' = Inr (r, v2))"
    using removeFromFavorites_filters [OF h wf, of "''TOKYO''"] by blast
  have r0: "r = []" using r f1 by simp
  have one: "\<exists>w2. removeFromFavorites example_store ''TOKYO'' = Inr ([], w2) \<and>
                  items w2 = AList.update FAVORITES ''[]'' (items example_store) \<and>
                  console w2 = console example_store"
    using a i q rd wr unfolding r0 by simp
  have three: "\<exists>v2. removeFromFavorites ?emptied ''TOKYO'' = Inr ([], v2)"
    using again g unfolding r0 by blast
  obtain r' w2' where a': "removeFromFavorites example_store ''Nowhere'' = Inr (r', w2')"
    and u: "(\<forall>f\<in>set [tokyo]. fav_name_lower f \<noteq> Inr (toLowerCase ''Nowhere'')) \<longrightarrow> r' = [tokyo]"
    and q': "\<not> isl (getItem_try example_store FAVORITES (JArr [])) \<and>
             writable example_store FAVORITES (JArr r') \<longrightarrow> console w2' = console example_store"
    using removeFromFavorites_filters [OF h wf, of "''Nowhere''"] by blast
  have r1: "r' = [tokyo]" using u n by blast
  have two: "\<exists>w2. removeFromFavorites example_store ''Nowhere'' = Inr ([tokyo], w2) \<and>
                  console w2 = console example_store"
    using a' q' rd wr' unfolding r1 by blast
  show ?thesis using one two three by blast
qed

text \<open>
  As the claim was written, removing a name that no entry has would report no error. On
  a store that cannot be reached, with no favorites, \<open>removeFromFavorites("Nowhere")\<close>
  returns the empty list, and both the read and the write leave an error on the console.
\<close>

theorem removeFromFavorites_reports_failed_access:
  "removeFromFavorites \<lparr>items = [], available = False, quota = 0, console = [], now = []\<rparr>
       ''Nowhere'' =
     Inr ([], \<lparr>items = [], available = False, quota = 0,
               console =
                 [ConsoleError ''Error reading weather_favorites from localStorage:''
                    (Some SecurityError),
                  ConsoleError ''Error writing weather_favorites to localStorage:''
                    (Some SecurityError)],
               now = []\<rparr>)"
  by (simp add: removeFromFavorites_def getFavorites_def getItem_def getItem_try_def
      localStorage_getItem_def setItem_def localStorage_setItem_def console_error_def
      FAVORITES_def)

subsection \<open>The generic read\<close>

text \<open>
  Claim C5, amended. \<open>getItem\<close> never throws and never changes the content of the store.
  When \<open>localStorage\<close> cannot be reached, and when the stored text is not valid JSON, it
  returns the default and reports one error to the console. When the key is absent, or
  holds the empty string, it returns the default and reports nothing. Otherwise it
  returns the parsed value.
\<close>

theorem getItem_never_throws:
  "\<exists>v w1. getItem w key d = Inr (v, w1) \<and> items w1 = items w \<and>
     (\<not> available w \<longrightarrow>
        v = d \<and>
        console w1 = console w @
          [ConsoleError (''Error reading '' @ key @ '' from localStorage:'') (Some SecurityError)]) \<and>
     (available w \<and> (map_of (items w) key = None \<or> map_of (items w) key = Some [])
        \<longrightarrow> v = d \<and> w1 = w) \<and>
     (\<forall>s. available w \<and> map_of (items w) key = Some s \<and> s \<noteq> [] \<and> JSON_parse s = None
        \<longrightarrow> v = d \<and>
            console w1 = console w @
              [ConsoleError (''Error reading '' @ key @ '' from localStorage:'') (Some SyntaxError)]) \<and>
     (\<forall>s x. available w \<and> map_of (items w) key = Some s \<and> s \<noteq> [] \<and> JSON_parse s = Some x
        \<longrightarrow> v = x \<and> w1 = w)"
  by (auto simp: getItem_def getItem_try_def localStorage_getItem_def console_error_def
           split: option.splits)

theorem getItem_never_throws_witness:
  "(\<exists>w1. getItem locked_store THEME (JStr ''light'') = Inr (JStr ''light'', w1) \<and>
          console w1 =
            [ConsoleError ''Error reading weather_theme from localStorage:'' (Some SecurityError)]) \<and>
   getItem example_store THEME (JStr ''light'') = Inr (JStr ''light'', example_store) \<and>
   (\<exists>w1. getItem corrupt_store THEME (JStr ''light'') = Inr (JStr ''light'', w1) \<and>
          console w1 =
            [ConsoleError ''Error reading weather_theme from localStorage:'' (Some SyntaxError)]) \<and>
   getItem example_store SEARCH_HISTORY (JArr []) =
     Inr (JArr [JStr ''Paris'', JStr ''London'', JStr ''PARIS''], example_store)"
proof -
  have l: "\<not> available locked_store" "console locked_store = []"
    by (simp_all add: locked_store_def example_store_def)
  have one: "\<exists>w1. getItem locked_store THEME (JStr ''light'') = Inr (JStr ''light'', w1) \<and>
          console w1 =
            [ConsoleError ''Error reading weather_theme from localStorage:'' (Some SecurityError)]"
    using getItem_never_throws [of locked_store THEME "JStr ''light''"] l
    by (auto simp: THEME_def)
  have m: "available example_store \<and>
           (map_of (items example_store) THEME = None \<or> map_of (items example_store) THEME = Some [])"
    by code_simp
  have two: "getItem example_store THEME (JStr ''light'') = Inr (JStr ''light'', example_store)"
    using getItem_never_throws [of example_store THEME "JStr ''light''"] m by auto
  have c: "available corrupt_store \<and> map_of (items corrupt_store) THEME = Some ''{oops'' \<and>
           ''{oops'' \<noteq> [] \<and> JSON_parse ''{oops'' = None"
    by code_simp
  have c0: "console corrupt_store = []"
    by (simp add: corrupt_store_def)
  have three: "\<exists>w1. getItem corrupt_store THEME (JStr ''light'') = Inr (JStr ''light'', w1) \<and>
          console w1 =
            [ConsoleError ''Error reading weather_theme from localStorage:'' (Some SyntaxError)]"
    using getItem_never_throws [of corrupt_store THEME "JStr ''light''"] c c0
    by (auto simp: THEME_def)
  have p: "available example_store \<and>
           map_of (items example_store) SEARCH_HISTORY = Some ''[\"Paris\",\"London\",\"PARIS\"]'' \<and>
           ''[\"Paris\",\"London\",\"PARIS\"]'' \<noteq> [] \<and>
           JSON_parse ''[\"Paris\",\"London\",\"PARIS\"]'' =
             Some (JArr [JStr ''Paris'', JStr ''London'', JStr ''PARIS''])"
    by code_simp
  have four: "getItem example_store SEARCH_HISTORY (JArr []) =
     Inr (JArr [JStr ''Paris'', JStr ''London'', JStr ''PARIS''], example_store)"
    using getItem_never_throws [of example_store SEARCH_HISTORY "JArr []"] p by auto
  show ?thesis using one two three four by blast
qed

text \<open>
  As the claim was written, a missing key would be reported to the console too. In a
  store that can be read and has no theme, the default comes back and the console stays
  empty.
\<close>

theorem getItem_missing_key_silent:
  "map_of (items \<lparr>items = [], available = True, quota = 0, console = [], now = []\<rparr>)
       ''weather_theme'' = None \<and>
   getItem \<lparr>items = [], available = True, quota = 0, console = [], now = []\<rparr>
       ''weather_theme'' (JStr ''light'') =
     Inr (JStr ''light'', \<lparr>items = [], available = True, quota = 0, console = [], now = []\<rparr>)"
  by (simp add: getItem_def getItem_try_def localStorage_getItem_def)

subsection \<open>Usage statistics\<close>

lemma hundredths_nearest:
  "100 * n \<le> 1024 * hundredths_of_KB n + 512 \<and> 1024 * hundredths_of_KB n \<le> 100 * n + 512"
proof -
  let ?q = "(100 * n + 512) div 1024" and ?m = "(100 * n + 512) mod 1024"
  have "1024 * ?q + ?m = 100 * n + 512" by simp
  moreover have "?m < 1024" by simp
  ultimately show ?thesis unfolding hundredths_of_KB_def by linarith
qed

lemma stats_loop_available:
  assumes "available w"
  shows "stats_loop w ((nm, key) # rest) stats t =
           stats_loop w rest
             (AList.update nm \<lparr>size' = stored_size w key, sizeKB = sizeKB_text (stored_size w key)\<rparr> stats)
             (t + stored_size w key)"
  using assms
  by (auto simp: localStorage_getItem_def stored_size_def blob_size_def Let_def split: option.splits)

text \<open>
  On a store that can be read, \<open>getStorageStats\<close> returns for each of the four keys the
  byte length of the text stored under it, which is zero when the key is absent, and a
  total that is the sum of the four. Each size comes with its text in kibibytes:
  \<open>toFixed2\<close> of the number of hundredths nearest to the size divided by 1024.
\<close>

lemma getStorageStats_sizes:
  assumes "available w"
  shows "getStorageStats w =
           Inr (\<lparr>individual =
                   map (\<lambda>(nm, key). (nm, \<lparr>size' = stored_size w key,
                                           sizeKB = sizeKB_text (stored_size w key)\<rparr>)) KEYS,
                 total = sum_list (map (\<lambda>(nm, key). stored_size w key) KEYS),
                 totalKB = sizeKB_text (sum_list (map (\<lambda>(nm, key). stored_size w key) KEYS))\<rparr>, w) \<and>
         (\<forall>key. map_of (items w) key = None \<longrightarrow> stored_size w key = 0) \<and>
         (\<forall>n. sizeKB_text n = toFixed2 (hundredths_of_KB n) \<and>
              100 * n \<le> 1024 * hundredths_of_KB n + 512 \<and>
              1024 * hundredths_of_KB n \<le> 100 * n + 512)"
proof -
  have "getStorageStats w =
           Inr (\<lparr>individual =
                   map (\<lambda>(nm, key). (nm, \<lparr>size' = stored_size w key,
                                           sizeKB = sizeKB_text (stored_size w key)\<rparr>)) KEYS,
                 total = sum_list (map (\<lambda>(nm, key). stored_size w key) KEYS),
                 totalKB = sizeKB_text (sum_list (map (\<lambda>(nm, key). stored_size w key) KEYS))\<rparr>, w)"
    unfolding getStorageStats_def KEYS_def
    by (simp add: stats_loop_available [OF assms] add.assoc del: stats_loop.simps(2))
  moreover have "\<forall>key. map_of (items w) key = None \<longrightarrow> stored_size w key = 0"
    by (simp add: stored_size_def)
  moreover have "\<forall>n. sizeKB_text n = toFixed2 (hundredths_of_KB n) \<and>
              100 * n \<le> 1024 * hundredths_of_KB n + 512 \<and>
              1024 * hundredths_of_KB n \<le> 100 * n + 512"
    using hundredths_nearest by (simp add: sizeKB_text_def)
  ultimately show ?thesis by blast
qed

lemma getStorageStats_sizes_example:
  "getStorageStats example_store =
     Inr (\<lparr>individual =
             [(''SEARCH_HISTORY'', \<lparr>size' = 26, sizeKB = ''0.03''\<rparr>),
              (''FAVORITES'', \<lparr>size' = 95, sizeKB = ''0.09''\<rparr>),
              (''THEME'', \<lparr>size' = 0, sizeKB = ''0.00''\<rparr>),
              (''UNIT'', \<lparr>size' = 0, sizeKB = ''0.00''\<rparr>)],
           total = 121, totalKB = ''0.12''\<rparr>, example_store)"
proof -
  have av: "available example_store"
    by (simp add: example_store_def)
  have k: "sizeKB_text 121 = ''0.12''" "sizeKB_text 26 = ''0.03''" "sizeKB_text 95 = ''0.09''"
    "sizeKB_text 0 = ''0.00''"
    by (simp_all add: sizeKB_text_def toFixed2_def hundredths_of_KB_def digit_char_def
        decimal.simps)
  have z: "stored_size example_store SEARCH_HISTORY = 26" "stored_size example_store FAVORITES = 95"
    "stored_size example_store THEME = 0" "stored_size example_store UNIT = 0"
    by code_simp+
  have e: "map (\<lambda>(nm, key). (nm, \<lparr>size' = stored_size example_store key,
                                   sizeKB = sizeKB_text (stored_size example_store key)\<rparr>)) KEYS =
             [(''SEARCH_HISTORY'', \<lparr>size' = 26, sizeKB = ''0.03''\<rparr>),
              (''FAVORITES'', \<lparr>size' = 95, sizeKB = ''0.09''\<rparr>),
              (''THEME'', \<lparr>size' = 0, sizeKB = ''0.00''\<rparr>),
              (''UNIT'', \<lparr>size' = 0, sizeKB = ''0.00''\<rparr>)]"
    by (simp add: KEYS_def z k)
  have t: "sum_list (map (\<lambda>(nm, key). stored_size example_store key) KEYS) = 121"
    by (simp add: KEYS_def z)
  have "getStorageStats example_store =
           Inr (\<lparr>individual =
                   map (\<lambda>(nm, key). (nm, \<lparr>size' = stored_size example_store key,
                                           sizeKB = sizeKB_text (stored_size example_store key)\<rparr>)) KEYS,
                 total = sum_list (map (\<lambda>(nm, key). stored_size example_store key) KEYS),
                 totalKB = sizeKB_text (sum_list (map (\<lambda>(nm, key). stored_size example_store key) KEYS))\<rparr>,
                example_store)"
    using getStorageStats_sizes [OF av] by blast
  then show ?thesis unfolding e t k(1) .
qed

text \<open>
  Claim C8. The claim asks for the sizes and their total in every state of the store.
  \<open>getStorageStats\<close> reads \<open>localStorage\<close> outside any \<open>try\<close>: on a store that cannot be
  reached it throws and returns no statistics, where \<open>getItem\<close>, in the same state and
  with the same call, catches the error, reports it and returns its default.
\<close>

theorem getStorageStats_unavailable_throws:
  "getStorageStats \<lparr>items = [], available = False, quota = 0, console = [], now = []\<rparr>
     = Inl SecurityError \<and>
   getItem \<lparr>items = [], available = False, quota = 0, console = [], now = []\<rparr>
       ''weather_theme'' (JStr ''light'') =
     Inr (JStr ''light'',
          \<lparr>items = [], available = False, quota = 0,
           console = [ConsoleError ''Error reading weather_theme from localStorage:''
                        (Some SecurityError)],
           now = []\<rparr>)"
  by (simp add: getStorageStats_def KEYS_def localStorage_getItem_def getItem_def
      getItem_try_def console_error_def)

subsection \<open>The theme\<close>

lemma parse_dark: "JSON_parse (JSON_stringify (JStr ''dark'')) = Some (JStr ''dark'')"
  by code_simp

lemma stringify_dark_nonempty: "JSON_stringify (JStr ''dark'') \<noteq> []"
  by (simp add: quote_string_def)

text \<open>
  Claim C9, amended. When the write of the theme goes through, \<open>getTheme\<close> after
  \<open>setTheme("dark")\<close> returns \<open>dark\<close>. On a store with no theme, \<open>getTheme\<close> returns \<open>light\<close>.
\<close>

theorem theme_round_trip:
  "(writable w THEME (JStr ''dark'') \<longrightarrow>
      (\<exists>w1. setTheme w ''dark'' = Inr ((), w1) \<and> getTheme w1 = Inr (JStr ''dark'', w1))) \<and>
   (map_of (items w) THEME = None \<longrightarrow> (\<exists>w2. getTheme w = Inr (JStr ''light'', w2)))"
proof (intro conjI impI)
  assume wr: "writable w THEME (JStr ''dark'')"
  let ?w1 = "w\<lparr>items := AList.update THEME (JSON_stringify (JStr ''dark'')) (items w)\<rparr>"
  have s: "setTheme w ''dark'' = Inr ((), ?w1)"
    using wr by (simp add: setTheme_def setItem_written)
  have av: "available w" using wr by (simp add: writable_def)
  have "getItem_try ?w1 THEME (JStr ''light'') = Inr (JStr ''dark'')"
    using av parse_dark stringify_dark_nonempty
    by (simp add: getItem_try_def localStorage_getItem_def update_conv' del: JSON_stringify.simps)
  then have "getTheme ?w1 = Inr (JStr ''dark'', ?w1)"
    by (simp add: getTheme_def getItem_def)
  with s show "\<exists>w1. setTheme w ''dark'' = Inr ((), w1) \<and> getTheme w1 = Inr (JStr ''dark'', w1)"
    by blast
next
  assume "map_of (items w) THEME = None"
  then show "\<exists>w2. getTheme w = Inr (JStr ''light'', w2)"
    by (auto simp: getTheme_def getItem_def getItem_try_def localStorage_getItem_def)
qed

theorem theme_round_trip_witness:
  "(\<exists>w1. setTheme example_store ''dark'' = Inr ((), w1) \<and> getTheme w1 = Inr (JStr ''dark'', w1)) \<and>
   (\<exists>w2. getTheme example_store = Inr (JStr ''light'', w2))"
proof -
  have wr: "writable example_store THEME (JStr ''dark'')"
    by code_simp
  have fresh: "map_of (items example_store) THEME = None"
    by code_simp
  show ?thesis using theme_round_trip [of example_store] wr fresh by blast
qed

text \<open>
  When the store cannot be reached, \<open>setTheme\<close> fails without a sign and \<open>getTheme\<close> still
  answers \<open>light\<close>.
\<close>

theorem theme_lost_when_write_fails:
  "getTheme (snd (projr (setTheme
       \<lparr>items = [], available = False, quota = 0, console = [], now = []\<rparr> ''dark'')))
   = Inr (JStr ''light'',
          \<lparr>items = [], available = False, quota = 0,
           console = [ConsoleError ''Error writing weather_theme to localStorage:'' (Some SecurityError),
                      ConsoleError ''Error reading weather_theme from localStorage:'' (Some SecurityError)],
           now = []\<rparr>)"
  by (simp add: setTheme_def setItem_def localStorage_setItem_def getTheme_def getItem_def
      getItem_try_def localStorage_getItem_def console_error_def THEME_def)

subsection \<open>Writes that fail\<close>

text \<open>
  Claim C10. What \<open>addToSearchHistory\<close> and \<open>addToFavorites\<close> return does not depend on the
  outcome of the write. The first returns the updated sequence, the second the success
  result with the updated collection, together with whatever state \<open>setItem\<close> leaves; the
  boolean of \<open>setItem\<close> is not looked at. When the write cannot go through, \<open>setItem\<close>
  returns false, the content of the store stays as it was, and the return values are
  the same.
\<close>

theorem mutators_ignore_write_outcome:
  assumes "getSearchHistory w = Inr (JArr (map JStr h), w1)"
    and "getFavorites w = Inr (JArr favs, v1)"
    and "\<forall>f\<in>set favs. \<not> isl (fav_name_lower f)"
    and "\<forall>f\<in>set favs. fav_name_lower f \<noteq> Inr (toLowerCase (name loc))"
  shows "let upd = map JStr (take 10 (city # filter (\<lambda>s. toLowerCase s \<noteq> toLowerCase city) h));
             updf = favs @ [new_favorite loc (now w)]
         in \<exists>ok w2 ok' v2.
           setItem w1 SEARCH_HISTORY (JArr upd) = Inr (ok, w2) \<and>
           addToSearchHistory w city = Inr (upd, w2) \<and>
           (\<not> writable w SEARCH_HISTORY (JArr upd) \<longrightarrow> \<not> ok \<and> items w2 = items w) \<and>
           setItem v1 FAVORITES (JArr updf) = Inr (ok', v2) \<and>
           addToFavorites w loc = Inr (Success updf, v2) \<and>
           (\<not> writable w FAVORITES (JArr updf) \<longrightarrow> \<not> ok' \<and> items v2 = items w)"
proof -
  define upd where "upd = map JStr (take 10 (city # filter (\<lambda>s. toLowerCase s \<noteq> toLowerCase city) h))"
  define updf where "updf = favs @ [new_favorite loc (now w)]"
  obtain ok w2 where
    s: "setItem w1 SEARCH_HISTORY (JArr upd) = Inr (ok, w2)" and
    a: "addToSearchHistory w city = Inr (upd, w2)"
    using addToSearchHistory_value [OF assms(1), of city] upd_def by blast
  have k: "items w1 = items w"
    using assms(1) getItem_keeps unfolding getSearchHistory_def by blast
  have wr: "writable w1 SEARCH_HISTORY (JArr upd) = writable w SEARCH_HISTORY (JArr upd)"
    using assms(1) getItem_writable unfolding getSearchHistory_def by blast
  have f: "\<not> writable w SEARCH_HISTORY (JArr upd) \<longrightarrow> \<not> ok \<and> items w2 = items w"
    using s wr k by (auto simp: setItem_refused console_error_def)
  have k': "items v1 = items w" "now v1 = now w"
    using assms(2) getItem_keeps unfolding getFavorites_def by blast+
  have wr': "writable v1 FAVORITES (JArr updf) = writable w FAVORITES (JArr updf)"
    using assms(2) getItem_writable unfolding getFavorites_def by blast
  obtain ok' v2 where s': "setItem v1 FAVORITES (JArr updf) = Inr (ok', v2)"
    using setItem_total by blast
  have a': "addToFavorites w loc = Inr (Success updf, v2)"
    using assms(2,3,4) updf_def s' k' by (simp add: addToFavorites_def some_favorite_named)
  have f': "\<not> writable w FAVORITES (JArr updf) \<longrightarrow> \<not> ok' \<and> items v2 = items w"
    using s' wr' k' by (auto simp: setItem_refused console_error_def)
  have "\<exists>ok w2 ok' v2.
           setItem w1 SEARCH_HISTORY (JArr upd) = Inr (ok, w2) \<and>
           addToSearchHistory w city = Inr (upd, w2) \<and>
           (\<not> writable w SEARCH_HISTORY (JArr upd) \<longrightarrow> \<not> ok \<and> items w2 = items w) \<and>
           setItem v1 FAVORITES (JArr updf) = Inr (ok', v2) \<and>
           addToFavorites w loc = Inr (Success updf, v2) \<and>
           (\<not> writable w FAVORITES (JArr updf) \<longrightarrow> \<not> ok' \<and> items v2 = items w)"
    using s a f s' a' f' by blast
  then show ?thesis unfolding upd_def updf_def Let_def .
qed

theorem mutators_ignore_write_outcome_witness:
  "\<exists>w2 v2.
     setItem exhausted_store SEARCH_HISTORY
       (JArr [JStr ''Oslo'', JStr ''Paris'', JStr ''London'', JStr ''PARIS'']) = Inr (False, w2) \<and>
     addToSearchHistory exhausted_store ''Oslo'' =
       Inr ([JStr ''Oslo'', JStr ''Paris'', JStr ''London'', JStr ''PARIS''], w2) \<and>
     items w2 = items exhausted_store \<and>
     addToFavorites exhausted_store paris =
       Inr (Success [tokyo, new_favorite paris (now exhausted_store)], v2) \<and>
     items v2 = items exhausted_store"
proof -
  have h: "getSearchHistory exhausted_store =
             Inr (JArr (map JStr [''Paris'', ''London'', ''PARIS'']), exhausted_store)"
    by code_simp
  have g: "getFavorites exhausted_store = Inr (JArr [tokyo], exhausted_store)"
    by code_simp
  have wf: "\<forall>f\<in>set [tokyo]. \<not> isl (fav_name_lower f)"
    by code_simp
  have new: "\<forall>f\<in>set [tokyo]. fav_name_lower f \<noteq> Inr (toLowerCase (name paris))"
    by code_simp
  have e: "map JStr (take 10 (''Oslo'' # filter (\<lambda>s. toLowerCase s \<noteq> toLowerCase ''Oslo'')
             [''Paris'', ''London'', ''PARIS''])) =
           [JStr ''Oslo'', JStr ''Paris'', JStr ''London'', JStr ''PARIS'']"
    by code_simp
  have nw: "\<not> writable exhausted_store SEARCH_HISTORY
              (JArr [JStr ''Oslo'', JStr ''Paris'', JStr ''London'', JStr ''PARIS''])"
    by code_simp
  have nw': "\<not> writable exhausted_store FAVORITES
               (JArr ([tokyo] @ [new_favorite paris (now exhausted_store)]))"
    by code_simp
  show ?thesis
    using mutators_ignore_write_outcome [OF h g wf new, of "''Oslo''"] nw nw'
    unfolding Let_def e by auto
qed

section \<open>The chart module: properties\<close>

subsection \<open>The registry and the engine agree\<close>

lemma handle_below_next:
  "registry_ok cw \<Longrightarrow> x \<in> fst ` set (live cw) \<Longrightarrow> x < next_handle cw"
  by (auto simp: registry_ok_def)

lemma own_key_not_inherited:
  "registry_ok cw \<Longrightarrow> map_of (chartInstances cw) i = Some h \<Longrightarrow> i \<notin> set Object_prototype_names"
proof -
  assume ok: "registry_ok cw" and "map_of (chartInstances cw) i = Some h"
  then have "i \<in> set (map fst (chartInstances cw))"
    by (metis map_of_eq_None_iff option.distinct(1) set_map)
  then show ?thesis using ok unfolding registry_ok_def by blast
qed

lemma registry_get_held [simp]:
  "map_of (chartInstances cw) i = Some h \<Longrightarrow> registry_get cw i = Held h"
  by (simp add: registry_get_def)

lemma live_handles_mem:
  "h \<in> set (live_handles cw i) \<longleftrightarrow> (\<exists>c. (h, c) \<in> set (live cw) \<and> canvas c = i)"
  by (force simp: live_handles_def)

lemma handle_one_canvas:
  assumes "distinct (map fst (live cw))"
    and "h \<in> set (live_handles cw i)" and "h \<in> set (live_handles cw j)"
  shows "i = j"
proof -
  obtain c1 c2 where "(h, c1) \<in> set (live cw)" "canvas c1 = i"
    "(h, c2) \<in> set (live cw)" "canvas c2 = j"
    using assms(2,3) by (auto simp: live_handles_mem)
  moreover from this have "c1 = c2" using assms(1) by (meson eq_key_imp_eq_value)
  ultimately show ?thesis by simp
qed

lemma live_handles_destroy:
  "live_handles (chart_destroy cw h) j = filter (\<lambda>x. x \<noteq> h) (live_handles cw j)"
proof -
  have "map fst (filter (\<lambda>(h', c). canvas c = j) (filter (\<lambda>(h', c). h' \<noteq> h) xs)) =
        filter (\<lambda>x. x \<noteq> h) (map fst (filter (\<lambda>(h', c). canvas c = j) xs))" for xs :: "(nat \<times> chart) list"
    by (induction xs) auto
  then show ?thesis by (simp add: live_handles_def chart_destroy_def)
qed

lemma live_handles_new:
  "live_handles (snd (new_Chart cw i cfg)) j =
     live_handles cw j @ (if j = i then [next_handle cw] else [])"
  by (simp add: live_handles_def new_Chart_def Let_def)

lemma live_handles_registry_upd [simp]:
  "live_handles (cw\<lparr>chartInstances := r\<rparr>) j = live_handles cw j"
  by (simp add: live_handles_def)

lemma live_handles_update:
  "live_handles (chart_update cw h nd) j = live_handles cw j"
proof -
  have "map fst (filter (\<lambda>(h', c). canvas c = j)
          (map (\<lambda>(h', c). if h' = h then (h', c\<lparr>config := (config c)\<lparr>chart_data := nd\<rparr>\<rparr>) else (h', c)) xs)) =
        map fst (filter (\<lambda>(h', c). canvas c = j) xs)" for xs :: "(nat \<times> chart) list"
    by (induction xs) (auto split: if_splits)
  then show ?thesis by (simp add: live_handles_def chart_update_def)
qed

lemma registry_ok_initial: "registry_ok (initial_charts ids)"
  by (simp add: registry_ok_def initial_charts_def live_handles_def)

lemma registry_ok_destroy_held:
  assumes "registry_ok cw" and "map_of (chartInstances cw) i = Some h"
  shows "live_handles (chart_destroy cw h) j = (if j = i then [] else live_handles cw j)"
proof (cases "j = i")
  case True
  then show ?thesis using assms by (simp add: live_handles_destroy registry_ok_def)
next
  case False
  have hi: "h \<in> set (live_handles cw i)" using assms by (simp add: registry_ok_def)
  have "h \<notin> set (live_handles cw j)"
    using handle_one_canvas [of cw h i j] hi False assms(1) by (auto simp: registry_ok_def)
  then have "filter (\<lambda>x. x \<noteq> h) (live_handles cw j) = live_handles cw j"
    by (auto simp: filter_id_conv)
  with False show ?thesis by (simp add: live_handles_destroy)
qed

lemma destroy_fields:
  "chartInstances (chart_destroy cw h) = chartInstances cw"
  "next_handle (chart_destroy cw h) = next_handle cw"
  "surfaces (chart_destroy cw h) = surfaces cw"
  "engine_trace (chart_destroy cw h) = engine_trace cw @ [Destroyed h]"
  "set (map fst (live (chart_destroy cw h))) \<subseteq> set (map fst (live cw))"
  "distinct (map fst (live cw)) \<Longrightarrow> distinct (map fst (live (chart_destroy cw h)))"
  by (auto simp: chart_destroy_def distinct_map_filter)

lemma destroyChart_eq:
  "destroyChart cw i =
     (case map_of (chartInstances cw) i of
        Some h \<Rightarrow> Inr ((chart_destroy cw h)\<lparr>chartInstances := AList.delete i (chartInstances cw)\<rparr>)
      | None \<Rightarrow> if i \<in> set Object_prototype_names then Inl TypeError else Inr cw)"
  by (simp add: destroyChart_def registry_get_def Let_def destroy_fields split: option.split)

lemma registry_ok_destroyChart:
  assumes "registry_ok cw" and "destroyChart cw i = Inr cw'"
  shows "registry_ok cw'"
proof (cases "map_of (chartInstances cw) i")
  case None
  then show ?thesis using assms by (simp add: destroyChart_eq split: if_splits)
next
  case (Some h)
  let ?cw1 = "chart_destroy cw h"
  have d: "cw' = ?cw1\<lparr>chartInstances := AList.delete i (chartInstances cw)\<rparr>"
    using Some assms(2) by (simp add: destroyChart_eq)
  have a: "\<forall>j. live_handles cw' j =
             (case map_of (chartInstances cw') j of None \<Rightarrow> [] | Some h \<Rightarrow> [h])"
    using assms(1) registry_ok_destroy_held [OF assms(1) Some]
    by (simp add: d delete_conv' registry_ok_def)
  have b: "distinct (map fst (live cw'))"
    using assms(1) destroy_fields(6) by (simp add: d registry_ok_def)
  have c: "\<forall>x\<in>set (map fst (live cw')). x < next_handle cw'"
  proof
    fix x
    assume "x \<in> set (map fst (live cw'))"
    then have "x \<in> set (map fst (live cw))"
      using destroy_fields(5) [of cw h] by (auto simp: d)
    then have "x < next_handle cw" using assms(1) handle_below_next by simp
    then show "x < next_handle cw'" by (simp add: d destroy_fields(2))
  qed
  have k: "\<forall>k\<in>set (map fst (chartInstances cw')). k \<notin> set Object_prototype_names"
  proof
    fix k
    assume "k \<in> set (map fst (chartInstances cw'))"
    then have "k \<in> set (map fst (chartInstances cw))"
      using dom_delete_subset [of i "chartInstances cw"] by (auto simp: d)
    then show "k \<notin> set Object_prototype_names"
      using assms(1) unfolding registry_ok_def by blast
  qed
  show ?thesis using a b c k unfolding registry_ok_def by blast
qed

lemma replace_chart_eq:
  "replace_chart cw i cfg =
     (if map_of (chartInstances cw) i = None \<and> i \<in> set Object_prototype_names
      then Inl TypeError
      else (let cw1 = (case map_of (chartInstances cw) i of
                         Some h \<Rightarrow> chart_destroy cw h
                       | None \<Rightarrow> cw)
            in Inr (Some (next_handle cw),
                    (snd (new_Chart cw1 i cfg))
                      \<lparr>chartInstances := AList.update i (next_handle cw) (chartInstances cw)\<rparr>)))"
  by (simp add: replace_chart_def registry_get_def store_new_chart_def new_Chart_def Let_def
      destroy_fields split: option.split)

lemma registry_ok_replace:
  assumes "registry_ok cw" and "replace_chart cw i cfg = Inr (r, cw')"
  shows "registry_ok cw'"
proof -
  let ?cw1 = "case map_of (chartInstances cw) i of Some h \<Rightarrow> chart_destroy cw h | None \<Rightarrow> cw"
  have ni: "\<not> (map_of (chartInstances cw) i = None \<and> i \<in> set Object_prototype_names)"
    using assms(2) by (auto simp: replace_chart_eq)
  have e: "cw' = (snd (new_Chart ?cw1 i cfg))\<lparr>chartInstances := AList.update i (next_handle cw) (chartInstances cw)\<rparr>"
    using assms(2) ni by (simp add: replace_chart_eq Let_def)
  have l1: "live_handles ?cw1 j = (if j = i then [] else live_handles cw j)" for j
  proof (cases "map_of (chartInstances cw) i")
    case None
    then show ?thesis using assms(1) by (simp add: registry_ok_def)
  next
    case (Some h)
    then show ?thesis using registry_ok_destroy_held [OF assms(1) Some] by simp
  qed
  have n1: "next_handle ?cw1 = next_handle cw"
    by (simp add: destroy_fields split: option.split)
  have s1: "set (map fst (live ?cw1)) \<subseteq> set (map fst (live cw))"
    using destroy_fields(5) by (auto split: option.split)
  have d1: "distinct (map fst (live ?cw1))"
    using assms(1) destroy_fields(6) by (auto simp: registry_ok_def split: option.split)
  have a: "\<forall>j. live_handles cw' j =
             (case map_of (chartInstances cw') j of None \<Rightarrow> [] | Some h \<Rightarrow> [h])"
    using assms(1) by (simp add: e live_handles_new l1 n1 update_conv' registry_ok_def)
  have lv: "map fst (live cw') = map fst (live ?cw1) @ [next_handle cw]"
    by (simp add: e new_Chart_def Let_def n1)
  have fresh: "next_handle cw \<notin> set (map fst (live ?cw1))"
  proof
    assume "next_handle cw \<in> set (map fst (live ?cw1))"
    then have "next_handle cw \<in> fst ` set (live cw)" using s1 by auto
    then show False using handle_below_next [OF assms(1)] by blast
  qed
  have b: "distinct (map fst (live cw'))"
    using d1 fresh by (simp add: lv)
  have nh: "next_handle cw' = Suc (next_handle cw)"
    by (simp add: e new_Chart_def Let_def n1)
  have c: "\<forall>x\<in>set (map fst (live cw')). x < next_handle cw'"
  proof
    fix x
    assume "x \<in> set (map fst (live cw'))"
    then have "x = next_handle cw \<or> x \<in> fst ` set (live cw)"
      using s1 unfolding lv by auto
    then show "x < next_handle cw'"
      using handle_below_next [OF assms(1)] unfolding nh by (auto simp: less_Suc_eq)
  qed
  have k: "\<forall>k\<in>set (map fst (chartInstances cw')). k \<notin> set Object_prototype_names"
  proof
    fix k
    assume "k \<in> set (map fst (chartInstances cw'))"
    then have "k = i \<or> k \<in> set (map fst (chartInstances cw))"
      by (auto simp: e new_Chart_def Let_def update_keys split: if_splits)
    moreover have "i \<in> set (map fst (chartInstances cw)) \<or> i \<notin> set Object_prototype_names"
      using ni by (auto simp: map_of_eq_None_iff)
    ultimately show "k \<notin> set Object_prototype_names"
      using assms(1) unfolding registry_ok_def by blast
  qed
  show ?thesis using a b c k unfolding registry_ok_def by blast
qed

lemma registry_ok_aside:
  "registry_ok (cw\<lparr>surfaces := ids\<rparr>) = registry_ok cw"
  "registry_ok (cw\<lparr>chart_console := l\<rparr>) = registry_ok cw"
  by (simp_all add: registry_ok_def live_handles_def)

lemma registry_ok_updateChart:
  assumes "registry_ok cw" and "updateChart cw i nd = Inr cw'"
  shows "registry_ok cw'"
proof (cases "registry_get cw i")
  case (Held h)
  then have e: "cw' = chart_update cw h nd" using assms(2) by (simp add: updateChart_def)
  have m: "map fst (live (chart_update cw h nd)) = map fst (live cw)"
    by (simp add: chart_update_def split_def comp_def if_distrib cong: if_cong)
  have "chartInstances (chart_update cw h nd) = chartInstances cw"
    "next_handle (chart_update cw h nd) = next_handle cw"
    by (simp_all add: chart_update_def)
  then show ?thesis
    using assms(1) m by (simp add: e registry_ok_def live_handles_update)
next
  case Inherited
  then show ?thesis using assms(2) by (simp add: updateChart_def)
next
  case Undefined
  then show ?thesis using assms by (auto simp: updateChart_def registry_ok_aside)
qed

lemma insert_index_set: "set (insert_index k xs) = insert k (set xs)"
  by (induction xs) auto

lemma sort_indices_set: "set (sort_indices ks) = set ks"
  unfolding sort_indices_def by (induction ks) (simp_all add: insert_index_set)

lemma Object_keys_set: "set (Object_keys reg) = set (map fst reg)"
  by (auto simp: Object_keys_def sort_indices_set)

text \<open>
  Destroying the charts of a list of identifiers, none of them the name of a built-in:
  no call throws, the entries of these identifiers are gone, and every handle one of
  them held has been destroyed.
\<close>

lemma destroy_each_clears:
  assumes "registry_ok cw" and "\<forall>k\<in>set ks. k \<notin> set Object_prototype_names"
  shows "\<exists>cw'. destroy_each cw ks = Inr cw' \<and> registry_ok cw' \<and>
           chartInstances cw' = filter (\<lambda>(k, h). k \<notin> set ks) (chartInstances cw) \<and>
           set (engine_trace cw) \<subseteq> set (engine_trace cw') \<and>
           (\<forall>i h. map_of (chartInstances cw) i = Some h \<and> i \<in> set ks
              \<longrightarrow> Destroyed h \<in> set (engine_trace cw'))"
  using assms
proof (induction ks arbitrary: cw)
  case Nil
  then show ?case by simp
next
  case (Cons k ks)
  have nk: "k \<notin> set Object_prototype_names" using Cons.prems(2) by simp
  have "\<exists>cw1. destroyChart cw k = Inr cw1"
    using nk by (cases "map_of (chartInstances cw) k") (simp_all add: destroyChart_eq)
  then obtain cw1 where d: "destroyChart cw k = Inr cw1" by blast
  have ok1: "registry_ok cw1" using Cons.prems(1) d by (rule registry_ok_destroyChart)
  have reg1: "chartInstances cw1 = AList.delete k (chartInstances cw)"
  proof (cases "map_of (chartInstances cw) k")
    case None
    then have "k \<notin> fst ` set (chartInstances cw)" by (simp add: map_of_eq_None_iff)
    then have "AList.delete k (chartInstances cw) = chartInstances cw" by simp
    with None d nk show ?thesis by (simp add: destroyChart_eq)
  next
    case (Some h)
    then show ?thesis using d by (auto simp: destroyChart_eq destroy_fields)
  qed
  have tr1: "set (engine_trace cw) \<subseteq> set (engine_trace cw1)"
    using d nk by (auto simp: destroyChart_eq destroy_fields split: option.splits)
  have held1: "map_of (chartInstances cw) k = Some h \<Longrightarrow> Destroyed h \<in> set (engine_trace cw1)" for h
    using d by (auto simp: destroyChart_eq destroy_fields)
  obtain cw' where r: "destroy_each cw1 ks = Inr cw'" and ok': "registry_ok cw'"
    and reg': "chartInstances cw' = filter (\<lambda>(k, h). k \<notin> set ks) (chartInstances cw1)"
    and tr': "set (engine_trace cw1) \<subseteq> set (engine_trace cw')"
    and held': "\<forall>i h. map_of (chartInstances cw1) i = Some h \<and> i \<in> set ks
                  \<longrightarrow> Destroyed h \<in> set (engine_trace cw')"
    using Cons.IH [OF ok1] Cons.prems(2) by auto
  have f: "filter (\<lambda>(k', h). k' \<notin> set ks) (AList.delete k r) =
           filter (\<lambda>(k', h). k' \<notin> set (k # ks)) r" for r :: "(string \<times> nat) list"
    by (induction r) auto
  have one: "destroy_each cw (k # ks) = Inr cw'" using d r by simp
  have two: "chartInstances cw' = filter (\<lambda>(k', h). k' \<notin> set (k # ks)) (chartInstances cw)"
    using reg' reg1 f by simp
  have three: "set (engine_trace cw) \<subseteq> set (engine_trace cw')" using tr1 tr' by blast
  have four: "\<forall>i h. map_of (chartInstances cw) i = Some h \<and> i \<in> set (k # ks)
                \<longrightarrow> Destroyed h \<in> set (engine_trace cw')"
  proof (intro allI impI)
    fix i h
    assume a: "map_of (chartInstances cw) i = Some h \<and> i \<in> set (k # ks)"
    show "Destroyed h \<in> set (engine_trace cw')"
    proof (cases "i = k")
      case True
      then show ?thesis using a held1 tr' by blast
    next
      case False
      then have "map_of (chartInstances cw1) i = Some h \<and> i \<in> set ks"
        using a by (simp add: reg1 delete_conv')
      then show ?thesis using held' by blast
    qed
  qed
  show ?case using one ok' two three four by blast
qed

lemma destroyAllCharts_clears:
  assumes "registry_ok cw"
  shows "\<exists>cw'. destroyAllCharts cw = Inr cw' \<and> registry_ok cw' \<and>
           chartInstances cw' = [] \<and> live cw' = [] \<and>
           (\<forall>i h. map_of (chartInstances cw) i = Some h
              \<longrightarrow> Destroyed h \<in> set (engine_trace cw'))"
proof -
  have nk: "\<forall>k\<in>set (Object_keys (chartInstances cw)). k \<notin> set Object_prototype_names"
    using assms unfolding Object_keys_set registry_ok_def by blast
  obtain cw' where r: "destroyAllCharts cw = Inr cw'" and ok': "registry_ok cw'"
    and reg': "chartInstances cw' =
                 filter (\<lambda>(k, h). k \<notin> set (Object_keys (chartInstances cw))) (chartInstances cw)"
    and held': "\<forall>i h. map_of (chartInstances cw) i = Some h \<and>
                        i \<in> set (Object_keys (chartInstances cw))
                  \<longrightarrow> Destroyed h \<in> set (engine_trace cw')"
    using destroy_each_clears [OF assms nk] unfolding destroyAllCharts_def by blast
  have e: "chartInstances cw' = []"
    unfolding reg' Object_keys_set by (force simp: filter_empty_conv)
  have n: "live_handles cw' j = []" for j
    using ok' e by (simp add: registry_ok_def)
  have l: "live cw' = []"
  proof (cases "live cw'")
    case Nil
    then show ?thesis .
  next
    case (Cons p ps)
    then have "fst p \<in> set (live_handles cw' (canvas (snd p)))"
      by (cases p) (auto simp: live_handles_mem)
    then show ?thesis using n by simp
  qed
  have h: "\<forall>i h. map_of (chartInstances cw) i = Some h \<longrightarrow> Destroyed h \<in> set (engine_trace cw')"
  proof (intro allI impI)
    fix i h
    assume a: "map_of (chartInstances cw) i = Some h"
    then have "i \<in> set (map fst (chartInstances cw))"
      by (metis map_of_eq_None_iff option.distinct(1) set_map)
    then show "Destroyed h \<in> set (engine_trace cw')"
      using a held' unfolding Object_keys_set by blast
  qed
  show ?thesis using r ok' e l h by blast
qed

lemma reachable_registry_ok: "reachable cw \<Longrightarrow> registry_ok cw"
proof (induction rule: reachable.induct)
  case (init ids)
  show ?case by (rule registry_ok_initial)
next
  case (page cw ids)
  then show ?case by (simp add: registry_ok_aside)
next
  case (temperature cw i d m r cw')
  then show ?case
    by (auto simp: createTemperatureChart_def registry_ok_aside registry_ok_replace
        split: if_splits)
next
  case (humidity cw i d m r cw')
  then show ?case
    by (auto simp: createHumidityChart_def registry_ok_replace split: if_splits)
next
  case (wind cw i d m r cw')
  then show ?case
    by (auto simp: createWindChart_def registry_ok_replace split: if_splits)
next
  case (update cw i nd cw')
  then show ?case using registry_ok_updateChart by blast
next
  case (destroy cw i cw')
  then show ?case using registry_ok_destroyChart by blast
next
  case (destroy_all cw cw')
  then show ?case using destroyAllCharts_clears by fastforce
qed

lemma replace_chart_held:
  assumes "registry_ok cw" and "map_of (chartInstances cw) i = Some h"
  shows "\<exists>h' cw'. replace_chart cw i cfg = Inr (Some h', cw') \<and> h' \<noteq> h \<and>
           engine_trace cw' = engine_trace cw @ [Destroyed h, Constructed h' i] \<and>
           live_handles cw' i = [h'] \<and> map_of (chartInstances cw') i = Some h'"
proof -
  let ?cw' = "(snd (new_Chart (chart_destroy cw h) i cfg))
                \<lparr>chartInstances := AList.update i (next_handle cw) (chartInstances cw)\<rparr>"
  have r: "replace_chart cw i cfg = Inr (Some (next_handle cw), ?cw')"
    using assms(2) by (simp add: replace_chart_eq Let_def)
  have "h \<in> set (live_handles cw i)" using assms by (simp add: registry_ok_def)
  then have "h \<in> fst ` set (live cw)" by (force simp: live_handles_mem)
  then have ne: "next_handle cw \<noteq> h" using handle_below_next [OF assms(1)] by blast
  have t: "engine_trace ?cw' = engine_trace cw @ [Destroyed h, Constructed (next_handle cw) i]"
    by (simp add: new_Chart_def Let_def destroy_fields)
  have m: "map_of (chartInstances ?cw') i = Some (next_handle cw)"
    by (simp add: update_conv')
  have "registry_ok ?cw'" using assms(1) r by (rule registry_ok_replace)
  then have l: "live_handles ?cw' i = [next_handle cw]" using m by (simp add: registry_ok_def)
  show ?thesis using r ne t m l by blast
qed

lemma destroyChart_held:
  assumes "registry_ok cw" and "map_of (chartInstances cw) i = Some h"
  shows "\<exists>cw'. destroyChart cw i = Inr cw' \<and>
           engine_trace cw' = engine_trace cw @ [Destroyed h] \<and>
           map_of (chartInstances cw') i = None \<and>
           live_handles cw' i = []"
proof -
  let ?cw' = "(chart_destroy cw h)\<lparr>chartInstances := AList.delete i (chartInstances cw)\<rparr>"
  have d: "destroyChart cw i = Inr ?cw'"
    using assms(2) by (simp add: destroyChart_eq)
  have t: "engine_trace ?cw' = engine_trace cw @ [Destroyed h]"
    by (simp add: destroy_fields)
  have m: "map_of (chartInstances ?cw') i = None"
    by (simp add: delete_conv')
  have "registry_ok ?cw'" using assms(1) d by (rule registry_ok_destroyChart)
  then have "live_handles ?cw' i = []" using m by (simp add: registry_ok_def)
  with d t m show ?thesis by blast
qed

lemma create_surface_absent:
  assumes "i \<notin> set (surfaces cw)"
    and "create \<in> {createTemperatureChart, createHumidityChart, createWindChart}"
  shows "\<exists>cw'. create cw i d m = Inr (None, cw') \<and> chartInstances cw' = chartInstances cw \<and>
           live cw' = live cw \<and> engine_trace cw' = engine_trace cw"
  using assms
  by (auto simp: createTemperatureChart_def createHumidityChart_def createWindChart_def)

subsection \<open>A create call without its surface\<close>

text \<open>
  Claim C6. With no surface under the identifier, \<open>createTemperatureChart\<close> reports an
  error to the console and returns no handle. \<open>createHumidityChart\<close> and \<open>createWindChart\<close>
  return no handle either, but leave the console as it was: on the page without any
  element, both return the state unchanged. None of the three throws.
\<close>

theorem create_without_surface:
  "createTemperatureChart (initial_charts []) ''missing'' [] False =
     Inr (None, (initial_charts [])\<lparr>chart_console :=
                  [ConsoleError ''Canvas element missing not found'' None]\<rparr>) \<and>
   createHumidityChart (initial_charts []) ''missing'' [] False = Inr (None, initial_charts []) \<and>
   createWindChart (initial_charts []) ''missing'' [] False = Inr (None, initial_charts []) \<and>
   chart_console (initial_charts []) = []"
  by (simp add: createTemperatureChart_def createHumidityChart_def createWindChart_def
      initial_charts_def)

subsection \<open>One live chart for each identifier\<close>

lemma one_chart_made:
  "createTemperatureChart (initial_charts [''cv1'']) ''cv1'' [] False = Inr (Some 0, one_chart)"
  by (simp add: createTemperatureChart_def replace_chart_def registry_get_def
      store_new_chart_def new_Chart_def initial_charts_def one_chart_def
      Object_prototype_names_def)

lemma one_chart_reachable: "reachable one_chart"
  using reachable.temperature [OF reachable.init one_chart_made] .

lemma orphaned_chart_reachable: "reachable orphaned_chart"
  unfolding orphaned_chart_def using reachable.page [OF one_chart_reachable] .

text \<open>
  Claim C7, amended. In every state the module can reach, the charts alive on a surface
  are the handle the registry holds for it and no more: at most one for each identifier.
  When the identifier holds a handle and its surface is on the page, each of the three
  \<open>create\<close> functions destroys that handle, then constructs the new chart, and
  afterwards the new handle is the only one alive on the surface and the one the
  registry holds. When the surface is not on the page, the call returns no handle and
  leaves the registry, the live charts and the engine as they were. \<open>destroyChart\<close>
  destroys the handle of its identifier and removes the entry, so that nothing is alive
  on the surface; \<open>destroyAllCharts\<close> destroys every handle the registry held and leaves
  the registry and the engine empty.
\<close>

theorem one_live_handle_per_identifier:
  assumes "reachable cw"
  shows "length (live_handles cw i) \<le> 1 \<and>
         live_handles cw i = (case map_of (chartInstances cw) i of None \<Rightarrow> [] | Some h \<Rightarrow> [h]) \<and>
         (\<forall>h. map_of (chartInstances cw) i = Some h \<longrightarrow>
            (\<forall>create\<in>{createTemperatureChart, createHumidityChart, createWindChart}.
               (i \<in> set (surfaces cw) \<longrightarrow>
                  (\<exists>h' cw'. create cw i d m = Inr (Some h', cw') \<and> h' \<noteq> h \<and>
                     engine_trace cw' = engine_trace cw @ [Destroyed h, Constructed h' i] \<and>
                     live_handles cw' i = [h'] \<and> map_of (chartInstances cw') i = Some h')) \<and>
               (i \<notin> set (surfaces cw) \<longrightarrow>
                  (\<exists>cw'. create cw i d m = Inr (None, cw') \<and>
                     chartInstances cw' = chartInstances cw \<and> live cw' = live cw \<and>
                     engine_trace cw' = engine_trace cw))) \<and>
            (\<exists>cw'. destroyChart cw i = Inr cw' \<and>
               engine_trace cw' = engine_trace cw @ [Destroyed h] \<and>
               map_of (chartInstances cw') i = None \<and> live_handles cw' i = [])) \<and>
         (\<exists>cw'. destroyAllCharts cw = Inr cw' \<and> chartInstances cw' = [] \<and> live cw' = [] \<and>
            (\<forall>j h. map_of (chartInstances cw) j = Some h
               \<longrightarrow> Destroyed h \<in> set (engine_trace cw')))"
proof -
  have ok: "registry_ok cw" using assms by (rule reachable_registry_ok)
  have one: "live_handles cw i = (case map_of (chartInstances cw) i of None \<Rightarrow> [] | Some h \<Rightarrow> [h])"
    using ok by (simp add: registry_ok_def)
  then have len: "length (live_handles cw i) \<le> 1" by (simp split: option.split)
  have held: "\<forall>h. map_of (chartInstances cw) i = Some h \<longrightarrow>
            (\<forall>create\<in>{createTemperatureChart, createHumidityChart, createWindChart}.
               (i \<in> set (surfaces cw) \<longrightarrow>
                  (\<exists>h' cw'. create cw i d m = Inr (Some h', cw') \<and> h' \<noteq> h \<and>
                     engine_trace cw' = engine_trace cw @ [Destroyed h, Constructed h' i] \<and>
                     live_handles cw' i = [h'] \<and> map_of (chartInstances cw') i = Some h')) \<and>
               (i \<notin> set (surfaces cw) \<longrightarrow>
                  (\<exists>cw'. create cw i d m = Inr (None, cw') \<and>
                     chartInstances cw' = chartInstances cw \<and> live cw' = live cw \<and>
                     engine_trace cw' = engine_trace cw))) \<and>
            (\<exists>cw'. destroyChart cw i = Inr cw' \<and>
               engine_trace cw' = engine_trace cw @ [Destroyed h] \<and>
               map_of (chartInstances cw') i = None \<and> live_handles cw' i = [])"
  proof (intro allI impI conjI ballI)
    fix h create
    assume h: "map_of (chartInstances cw) i = Some h"
      and c: "create \<in> {createTemperatureChart, createHumidityChart, createWindChart}"
      and s: "i \<in> set (surfaces cw)"
    show "\<exists>h' cw'. create cw i d m = Inr (Some h', cw') \<and> h' \<noteq> h \<and>
            engine_trace cw' = engine_trace cw @ [Destroyed h, Constructed h' i] \<and>
            live_handles cw' i = [h'] \<and> map_of (chartInstances cw') i = Some h'"
      using c s replace_chart_held [OF ok h]
      by (auto simp: createTemperatureChart_def createHumidityChart_def createWindChart_def)
  next
    fix h create
    assume c: "create \<in> {createTemperatureChart, createHumidityChart, createWindChart}"
      and s: "i \<notin> set (surfaces cw)"
    show "\<exists>cw'. create cw i d m = Inr (None, cw') \<and>
            chartInstances cw' = chartInstances cw \<and> live cw' = live cw \<and>
            engine_trace cw' = engine_trace cw"
      using create_surface_absent [OF s c] .
  next
    fix h
    assume h: "map_of (chartInstances cw) i = Some h"
    show "\<exists>cw'. destroyChart cw i = Inr cw' \<and>
            engine_trace cw' = engine_trace cw @ [Destroyed h] \<and>
            map_of (chartInstances cw') i = None \<and> live_handles cw' i = []"
      using destroyChart_held [OF ok h] .
  qed
  have all: "\<exists>cw'. destroyAllCharts cw = Inr cw' \<and> chartInstances cw' = [] \<and> live cw' = [] \<and>
            (\<forall>j h. map_of (chartInstances cw) j = Some h
               \<longrightarrow> Destroyed h \<in> set (engine_trace cw'))"
    using destroyAllCharts_clears [OF ok] by blast
  show ?thesis using len one held all by blast
qed

theorem one_live_handle_per_identifier_witness:
  "length (live_handles one_chart ''cv1'') \<le> 1 \<and>
   (\<exists>h' cw'. createTemperatureChart one_chart ''cv1'' [] True = Inr (Some h', cw') \<and> h' \<noteq> 0 \<and>
      engine_trace cw' = engine_trace one_chart @ [Destroyed 0, Constructed h' ''cv1''] \<and>
      live_handles cw' ''cv1'' = [h'] \<and> map_of (chartInstances cw') ''cv1'' = Some h') \<and>
   (\<exists>cw'. createWindChart orphaned_chart ''cv1'' [] True = Inr (None, cw') \<and>
      chartInstances cw' = chartInstances orphaned_chart \<and> live cw' = live orphaned_chart \<and>
      engine_trace cw' = engine_trace orphaned_chart) \<and>
   (\<exists>cw'. destroyChart one_chart ''cv1'' = Inr cw' \<and>
      engine_trace cw' = engine_trace one_chart @ [Destroyed 0] \<and>
      map_of (chartInstances cw') ''cv1'' = None \<and> live_handles cw' ''cv1'' = []) \<and>
   (\<exists>cw'. destroyAllCharts one_chart = Inr cw' \<and> chartInstances cw' = [] \<and> live cw' = [] \<and>
      Destroyed 0 \<in> set (engine_trace cw'))"
proof -
  have held: "map_of (chartInstances one_chart) ''cv1'' = Some 0"
    "''cv1'' \<in> set (surfaces one_chart)"
    by (simp_all add: one_chart_def)
  have gone: "map_of (chartInstances orphaned_chart) ''cv1'' = Some 0"
    "''cv1'' \<notin> set (surfaces orphaned_chart)"
    by (simp_all add: orphaned_chart_def one_chart_def)
  have t: "createTemperatureChart \<in> {createTemperatureChart, createHumidityChart, createWindChart}"
    and w: "createWindChart \<in> {createTemperatureChart, createHumidityChart, createWindChart}"
    by simp_all
  note a = one_live_handle_per_identifier [OF one_chart_reachable, of "''cv1''" "[]" True]
  note b = one_live_handle_per_identifier [OF orphaned_chart_reachable, of "''cv1''" "[]" True]
  have 1: "length (live_handles one_chart ''cv1'') \<le> 1" using a by blast
  have 2: "\<exists>h' cw'. createTemperatureChart one_chart ''cv1'' [] True = Inr (Some h', cw') \<and> h' \<noteq> 0 \<and>
      engine_trace cw' = engine_trace one_chart @ [Destroyed 0, Constructed h' ''cv1''] \<and>
      live_handles cw' ''cv1'' = [h'] \<and> map_of (chartInstances cw') ''cv1'' = Some h'"
    using a held t by blast
  have 3: "\<exists>cw'. createWindChart orphaned_chart ''cv1'' [] True = Inr (None, cw') \<and>
      chartInstances cw' = chartInstances orphaned_chart \<and> live cw' = live orphaned_chart \<and>
      engine_trace cw' = engine_trace orphaned_chart"
    using b gone w by blast
  have 4: "\<exists>cw'. destroyChart one_chart ''cv1'' = Inr cw' \<and>
      engine_trace cw' = engine_trace one_chart @ [Destroyed 0] \<and>
      map_of (chartInstances cw') ''cv1'' = None \<and> live_handles cw' ''cv1'' = []"
    using a held by blast
  have 5: "\<exists>cw'. destroyAllCharts one_chart = Inr cw' \<and> chartInstances cw' = [] \<and> live cw' = [] \<and>
      Destroyed 0 \<in> set (engine_trace cw')"
    using a held by blast
  show ?thesis using 1 2 3 4 5 by blast
qed

text \<open>
  As the claim was written, every create call on an identifier that holds a handle would
  release it. Once the page has removed the canvas, the three functions return before
  they look at the registry: the handle stays in the registry and its chart stays alive.
\<close>

theorem create_on_removed_surface_keeps_handle:
  "reachable orphaned_chart \<and>
   map_of (chartInstances orphaned_chart) ''cv1'' = Some 0 \<and>
   live_handles orphaned_chart ''cv1'' = [0] \<and>
   createTemperatureChart orphaned_chart ''cv1'' [] True =
     Inr (None, orphaned_chart\<lparr>chart_console :=
                  [ConsoleError ''Canvas element cv1 not found'' None]\<rparr>) \<and>
   createHumidityChart orphaned_chart ''cv1'' [] True = Inr (None, orphaned_chart) \<and>
   createWindChart orphaned_chart ''cv1'' [] True = Inr (None, orphaned_chart)"
  using orphaned_chart_reachable
  by (simp add: createTemperatureChart_def createHumidityChart_def createWindChart_def
      orphaned_chart_def one_chart_def live_handles_def)

end
